theory Spec2Isabelle
  imports Main
begin

text \<open>
  The connection code of the Chrome DevTools MCP server: the endpoint resolver and the
  connection manager of \<open>build/src/browser.js\<close>, the context accessor of
  \<open>build/src/main.js\<close> and the browser switch of
  \<open>build/src/tools/browser-management.js\<close>. Pure functions are HOL functions on
  strings; functions with effects run on an explicit state and return an error or a
  value; the network, Docker, DNS and Puppeteer are an outside world that answers calls.
\<close>

section \<open>JavaScript values used by the connection code\<close>

subsection \<open>Decimal numerals\<close>

text \<open>
  Template literals print a number in decimal, \<open>Number(s)\<close> reads one back, and the
  URL class keeps a port as a number and shows it as a decimal string.
\<close>

definition digit_char :: "nat \<Rightarrow> char" where
  "digit_char d = ''0123456789'' ! d"

definition digit_val :: "char \<Rightarrow> nat" where
  "digit_val c = length (takeWhile (\<lambda>d. d \<noteq> c) ''0123456789'')"

definition is_digit :: "char \<Rightarrow> bool" where
  "is_digit c = (c \<in> set ''0123456789'')"

fun show_nat :: "nat \<Rightarrow> string" where
  "show_nat n = (if n < 10 then [digit_char n]
                 else show_nat (n div 10) @ [digit_char (n mod 10)])"

declare show_nat.simps [simp del]

definition read_nat :: "string \<Rightarrow> nat" where
  "read_nat s = foldl (\<lambda>a c. 10 * a + digit_val c) 0 s"

definition show_int :: "int \<Rightarrow> string" where
  "show_int i = (if i < 0 then CHR ''-'' # show_nat (nat (- i)) else show_nat (nat i))"

subsection \<open>Thrown values\<close>

text \<open>
  Everything this code throws or catches is an \<open>Error\<close> object: a name, a message and
  an optional cause.
\<close>

datatype js_error = Error (name: string) (message: string) (cause: "js_error option")

definition new_Error :: "string \<Rightarrow> js_error" where
  "new_Error m = Error ''Error'' m None"

definition new_TypeError :: "string \<Rightarrow> js_error" where
  "new_TypeError m = Error ''TypeError'' m None"

text \<open>\<open>String(e)\<close>, that is \<open>Error.prototype.toString\<close>.\<close>

definition String_of_error :: "js_error \<Rightarrow> string" where
  "String_of_error e =
     (if name e = [] then message e
      else if message e = [] then name e
      else name e @ '': '' @ message e)"

text \<open>A string option is truthy when it is defined and not the empty string.\<close>

definition truthy :: "string option \<Rightarrow> bool" where
  "truthy x = (case x of None \<Rightarrow> False | Some s \<Rightarrow> s \<noteq> [])"

subsection \<open>Strings\<close>

text \<open>\<open>s.split(c)\<close> on a single character.\<close>

fun split_on :: "char \<Rightarrow> string \<Rightarrow> string list" where
  "split_on c [] = [[]]"
| "split_on c (x # xs) =
     (if x = c then [] # split_on c xs
      else (case split_on c xs of [] \<Rightarrow> [[x]] | w # ws \<Rightarrow> (x # w) # ws))"

section \<open>The URL class\<close>

text \<open>
  The program parses and rewrites addresses with the URL class of Node, which implements
  the WHATWG URL standard: \<open>new URL(s)\<close> throws a \<open>TypeError\<close> when \<open>s\<close> does not
  parse; the properties \<open>protocol\<close>, \<open>hostname\<close> and \<open>port\<close> are read;
  \<open>hostname\<close> and \<open>port\<close> are assigned; \<open>toString()\<close> serializes. The class
  is a library, not a part of the program, and the program is modelled over it: the class
  is a record of these operations on some type \<open>'u\<close> of URL objects. Only the
  constructor throws (\<open>None\<close>); reading a property, assigning one and serializing
  always return. A URL object is a value here, and an assignment gives the changed
  object. Whatever is proved of the
  program for every such record holds for the program run with Node's class; the words
  \<open>parses\<close> and \<open>fails to parse\<close> of a statement are then those of Node's parser.
\<close>

record 'u url_class =
  new_URL :: "string \<Rightarrow> 'u option"
  protocol :: "'u \<Rightarrow> string"
  hostname :: "'u \<Rightarrow> string"
  port :: "'u \<Rightarrow> string"
  set_hostname :: "'u \<Rightarrow> string \<Rightarrow> 'u"
  set_port :: "'u \<Rightarrow> string \<Rightarrow> 'u"
  toString :: "'u \<Rightarrow> string"

section \<open>browser.js: the endpoint resolver\<close>

text \<open>
  The body of the \<open>try\<close> block of \<open>rewriteWsEndpoint\<close>: \<open>new NodeURL\<close> throws a
  \<open>TypeError\<close> on a string that does not parse.
\<close>

definition rewriteWsEndpoint_try :: "'u url_class \<Rightarrow> string \<Rightarrow> string \<Rightarrow> js_error + string" where
  "rewriteWsEndpoint_try NodeURL originalWsUrl viaBrowserURL =
     (case new_URL NodeURL originalWsUrl of
        None \<Rightarrow> Inl (new_TypeError ''Invalid URL'')
      | Some wsUrl \<Rightarrow>
          (let isLoopback = (hostname NodeURL wsUrl = ''127.0.0.1'' \<or>
                             hostname NodeURL wsUrl = ''localhost'' \<or>
                             hostname NodeURL wsUrl = ''::1'')
           in case new_URL NodeURL viaBrowserURL of
                None \<Rightarrow> Inl (new_TypeError ''Invalid URL'')
              | Some via \<Rightarrow>
                  if \<not> isLoopback \<and> port NodeURL wsUrl = port NodeURL via
                  then Inr originalWsUrl
                  else Inr (toString NodeURL
                              (set_port NodeURL
                                 (set_hostname NodeURL wsUrl (hostname NodeURL via))
                                 (port NodeURL via)))))"

text \<open>
  \<open>rewriteWsEndpoint\<close>: the \<open>try\<close> block with its \<open>catch\<close>, which returns the
  advertised string. The result is an error (\<open>Inl\<close>) or the returned string (\<open>Inr\<close>),
  as for every function of the program.
\<close>

definition rewriteWsEndpoint :: "'u url_class \<Rightarrow> string \<Rightarrow> string \<Rightarrow> js_error + string" where
  "rewriteWsEndpoint NodeURL originalWsUrl viaBrowserURL =
     (case rewriteWsEndpoint_try NodeURL originalWsUrl viaBrowserURL of
        Inl e \<Rightarrow> Inr originalWsUrl
      | Inr r \<Rightarrow> Inr r)"

section \<open>Effects: the module state and the outside world\<close>

text \<open>
  Browser objects and context objects are named by references. The state holds the
  module variables \<open>browser\<close> (browser.js), \<open>context\<close> (main.js),
  \<open>currentBrowserUrl\<close> and \<open>currentWsEndpoint\<close> (browser-management.js), the
  \<open>connected\<close> flag of every browser object, the fields (the own enumerable
  properties) of every context object, and the calls made to the outside so far, in
  order. While a function of this program runs, a \<open>connected\<close> flag changes only
  when the program connects, launches or disconnects.
\<close>

type_synonym ref = nat

datatype val = BrowserRef ref | Opaque nat

type_synonym obj = "string \<rightharpoonup> val"

datatype 'a settled = Resolved 'a | Rejected js_error | Pending

record connect_options =
  browserWSEndpoint :: "string option"
  headers :: "(string \<times> string) list option"
  protocolTimeout :: nat

text \<open>
  The options of \<open>launch\<close>, and what it hands to \<open>puppeteer.launch\<close>. The target
  filter and \<open>handleDevToolsAsPage\<close> are both given by the \<open>devtools\<close> flag. The log
  file, to which the output of the process is piped, is left out.
\<close>

record launch_options =
  headless :: bool
  executablePath :: "string option"
  channel :: "string option"
  isolated :: bool
  userDataDir :: "string option"
  viewport :: "(nat \<times> nat) option"
  launch_args :: "string list option"
  acceptInsecureCerts :: bool
  launch_devtools :: bool

record launch_config =
  cfg_channel :: "string option"
  cfg_devtools :: bool
  cfg_executablePath :: "string option"
  cfg_userDataDir :: "string option"
  cfg_headless :: bool
  cfg_args :: "string list"
  cfg_acceptInsecureCerts :: bool

datatype event =
    Fetch string
  | ExecSync string
  | DnsLookup string
  | PuppeteerConnect connect_options
  | Mkdir string
  | PuppeteerLaunch launch_config
  | BrowserPages ref
  | Resize nat nat nat
  | CreateCDPSession nat
  | Send nat string
  | Disconnect ref
  | McpContextFrom ref
  | Log string
  | AppendResponseLine string
  | SetIncludePages bool

record state =
  browser_var :: "ref option"
  live :: "ref set"
  context_var :: "ref option"
  heap :: "ref \<rightharpoonup> obj"
  next_ref :: ref
  currentBrowserUrl :: "string option"
  currentWsEndpoint :: "string option"
  events :: "event list"

text \<open>
  The body of \<open>/json/version\<close>, as far as the code reads it. A body that is not an
  object counts among the failures of \<open>res.json()\<close>: the property access that throws
  on it stands in the same \<open>try\<close> block.
\<close>

record version_info =
  webSocketDebuggerUrl :: "string option"
  webSocketDebuggerUrlLegacy :: "string option"

record http_response =
  ok :: bool
  status :: nat
  json_body :: "js_error + version_info"

text \<open>
  The outside world answers every call; an answer may depend on everything that
  happened before (the event list). A call that is raced against a timer answers
  \<open>Pending\<close> when the timer fires first. \<open>McpContext.from\<close> is not among the sources:
  the environment gives the fields of the object it builds, except \<open>browser\<close>. The
  URL class that the program runs with stands here as well.
\<close>

record 'u env =
  URL :: "'u url_class"
  fetch_result :: "event list \<Rightarrow> string \<Rightarrow> nat \<Rightarrow> js_error + http_response"
  execSync_result :: "event list \<Rightarrow> string \<Rightarrow> js_error + string"
  dns_lookup_result :: "event list \<Rightarrow> string \<Rightarrow> js_error + string"
  connect_result :: "event list \<Rightarrow> connect_options \<Rightarrow> ref settled"
  homedir :: string
  mkdir_result :: "event list \<Rightarrow> string \<Rightarrow> js_error + unit"
  launch_result :: "event list \<Rightarrow> launch_config \<Rightarrow> js_error + ref"
  resize_result :: "event list \<Rightarrow> nat \<Rightarrow> nat \<Rightarrow> nat \<Rightarrow> js_error + unit"
  pages_result :: "event list \<Rightarrow> ref \<Rightarrow> js_error + nat list"
  createCDPSession_result :: "event list \<Rightarrow> nat \<Rightarrow> js_error + nat"
  send_result :: "event list \<Rightarrow> nat \<Rightarrow> string \<Rightarrow> unit settled"
  disconnect_result :: "event list \<Rightarrow> ref \<Rightarrow> js_error + unit"
  McpContext_fields :: "event list \<Rightarrow> ref \<Rightarrow> js_error + obj"
  timer_first :: "event list \<Rightarrow> string \<Rightarrow> bool"

type_synonym 'a io = "state \<Rightarrow> (js_error + 'a) \<times> state"

definition io_return :: "'a \<Rightarrow> 'a io" where
  "io_return x = (\<lambda>s. (Inr x, s))"

definition io_throw :: "js_error \<Rightarrow> 'a io" where
  "io_throw e = (\<lambda>s. (Inl e, s))"

definition io_bind :: "'a io \<Rightarrow> ('a \<Rightarrow> 'b io) \<Rightarrow> 'b io" where
  "io_bind m f = (\<lambda>s. case m s of (Inl e, s') \<Rightarrow> (Inl e, s') | (Inr x, s') \<Rightarrow> f x s')"

definition io_catch :: "'a io \<Rightarrow> (js_error \<Rightarrow> 'a io) \<Rightarrow> 'a io" where
  "io_catch m h = (\<lambda>s. case m s of (Inl e, s') \<Rightarrow> h e s' | (Inr x, s') \<Rightarrow> (Inr x, s'))"

text \<open>A call to the outside: recorded, and answered from what happened before it.\<close>

definition external :: "event \<Rightarrow> (event list \<Rightarrow> js_error + 'a) \<Rightarrow> 'a io" where
  "external ev answer = (\<lambda>s. (answer (events s), s\<lparr>events := events s @ [ev]\<rparr>))"

definition modify :: "(state \<Rightarrow> state) \<Rightarrow> unit io" where
  "modify f = (\<lambda>s. (Inr (), f s))"

definition logger :: "string \<Rightarrow> unit io" where
  "logger line = modify (\<lambda>s. s\<lparr>events := events s @ [Log line]\<rparr>)"

text \<open>\<open>Promise.race\<close> of a call with a timer that rejects with \<open>e\<close>.\<close>

definition race :: "'a settled \<Rightarrow> js_error \<Rightarrow> js_error + 'a" where
  "race p e = (case p of Resolved x \<Rightarrow> Inr x | Rejected r \<Rightarrow> Inl r | Pending \<Rightarrow> Inl e)"

text \<open>\<open>browser?.connected\<close>: the active browser, when there is one and it is connected.\<close>

definition connected_browser :: "state \<Rightarrow> ref option" where
  "connected_browser s =
     (case browser_var s of None \<Rightarrow> None | Some b \<Rightarrow> if b \<in> live s then Some b else None)"

text \<open>\<open>a || b\<close> on strings that may be undefined.\<close>

definition js_or :: "string option \<Rightarrow> string option \<Rightarrow> string option" where
  "js_or a b = (if truthy a then a else b)"

text \<open>A string that may be undefined, inside a template literal.\<close>

definition template :: "string option \<Rightarrow> string" where
  "template x = (case x of None \<Rightarrow> ''undefined'' | Some t \<Rightarrow> t)"

definition is_space :: "char \<Rightarrow> bool" where
  "is_space c = (c \<in> set [CHR '' '', CHR 0x09, CHR 0x0A, CHR 0x0B, CHR 0x0C, CHR 0x0D])"

definition trim :: "string \<Rightarrow> string" where
  "trim t = rev (dropWhile is_space (rev (dropWhile is_space t)))"

fun join :: "string \<Rightarrow> string list \<Rightarrow> string" where
  "join sep [] = []"
| "join sep [x] = x"
| "join sep (x # y # ys) = x @ sep @ join sep (y # ys)"

section \<open>browser.js: connecting and launching\<close>

definition fetchJsonWithTimeout :: "'u env \<Rightarrow> string \<Rightarrow> nat \<Rightarrow> version_info io" where
  "fetchJsonWithTimeout env url timeoutMs =
     io_bind (external (Fetch url) (\<lambda>h. fetch_result env h url timeoutMs)) (\<lambda>res.
       if \<not> ok res
       then io_throw (new_Error (''HTTP '' @ show_nat (status res) @ '' from '' @ url))
       else (\<lambda>s. (json_body res, s)))"

definition resolveWsFromBrowserURL :: "'u env \<Rightarrow> string \<Rightarrow> nat \<Rightarrow> string io" where
  "resolveWsFromBrowserURL env browserURL' timeoutMs =
     io_bind (fetchJsonWithTimeout env (browserURL' @ ''/json/version'') timeoutMs) (\<lambda>version.
       case js_or (webSocketDebuggerUrl version) (webSocketDebuggerUrlLegacy version) of
         None \<Rightarrow>
           io_throw (new_Error (''No webSocketDebuggerUrl in '' @ browserURL' @ ''/json/version''))
       | Some original \<Rightarrow>
           if original = []
           then io_throw
                  (new_Error (''No webSocketDebuggerUrl in '' @ browserURL' @ ''/json/version''))
           else (\<lambda>s. (rewriteWsEndpoint (URL env) original browserURL', s)))"

text \<open>A browser that \<open>puppeteer.connect\<close> or \<open>puppeteer.launch\<close> hands over is connected.\<close>

definition connectWithTimeout :: "'u env \<Rightarrow> connect_options \<Rightarrow> nat \<Rightarrow> ref io" where
  "connectWithTimeout env connectOptions timeoutMs =
     io_bind
       (external (PuppeteerConnect connectOptions)
          (\<lambda>h. race (connect_result env h connectOptions)
                 (new_Error (''Timed out connecting to Chrome after '' @ show_nat timeoutMs @ ''ms''))))
       (\<lambda>b. io_bind (modify (\<lambda>s. s\<lparr>live := insert b (live s)\<rparr>)) (\<lambda>_. io_return b))"

definition sendWithTimeout :: "'u env \<Rightarrow> nat \<Rightarrow> string \<Rightarrow> nat \<Rightarrow> unit io" where
  "sendWithTimeout env client method timeoutMs =
     external (Send client method)
       (\<lambda>h. race (send_result env h client method) (new_Error (method @ '' timed out'')))"

record discovered =
  d_browserURL :: string
  d_wsEndpoint :: string
  d_container :: string
  d_ip :: string
  d_port :: nat

text \<open>
  What one turn of a \<open>for\<close> loop decides: go on with the next element, or return
  from the function.
\<close>

datatype 'a flow = Continue | Return 'a

definition dockerCmd :: string where
  "dockerCmd = ''/usr/bin/docker''"

definition execSync :: "'u env \<Rightarrow> string \<Rightarrow> string io" where
  "execSync env cmd = external (ExecSync cmd) (\<lambda>h. execSync_result env h cmd)"

definition discover_port :: "'u env \<Rightarrow> string \<Rightarrow> string \<Rightarrow> nat \<Rightarrow> discovered flow io" where
  "discover_port env container ip p =
     io_catch
       (io_bind (resolveWsFromBrowserURL env (''http://'' @ ip @ '':'' @ show_nat p) 2000)
          (\<lambda>ws. io_return (Return \<lparr>d_browserURL = ''http://'' @ ip @ '':'' @ show_nat p,
                     d_wsEndpoint = ws, d_container = container, d_ip = ip, d_port = p\<rparr>)))
       (\<lambda>_. io_return Continue)"

fun discover_ports :: "'u env \<Rightarrow> string \<Rightarrow> string \<Rightarrow> nat list \<Rightarrow> discovered flow io" where
  "discover_ports env container ip [] = io_return Continue"
| "discover_ports env container ip (p # ps) =
     io_bind (discover_port env container ip p) (\<lambda>r.
       case r of Return d \<Rightarrow> io_return (Return d)
               | Continue \<Rightarrow> discover_ports env container ip ps)"

definition discover_container :: "'u env \<Rightarrow> string \<Rightarrow> discovered flow io" where
  "discover_container env container =
     io_catch
       (io_bind
          (execSync env (dockerCmd @ '' inspect -f '' @ [CHR 0x27] @ ''{{.State.Running}}'' @
                         [CHR 0x27] @ '' '' @ container))
          (\<lambda>out.
             if trim out \<noteq> ''true'' then io_return Continue
             else io_bind
                    (execSync env
                       (dockerCmd @ '' inspect -f '' @ [CHR 0x27] @
                        ''{{range .NetworkSettings.Networks}}{{.IPAddress}}{{end}}'' @
                        [CHR 0x27] @ '' '' @ container))
                    (\<lambda>out'.
                       if trim out' = [] then io_return Continue
                       else discover_ports env container (trim out') [9999, 9222])))
       (\<lambda>_. io_return Continue)"

fun discover_containers :: "'u env \<Rightarrow> string list \<Rightarrow> discovered option io" where
  "discover_containers env [] = io_return None"
| "discover_containers env (container # rest) =
     io_bind (discover_container env container) (\<lambda>r.
       case r of Return d \<Rightarrow> io_return (Some d)
               | Continue \<Rightarrow> discover_containers env rest)"

definition discoverWebtopBrowser :: "'u env \<Rightarrow> discovered option io" where
  "discoverWebtopBrowser env = discover_containers env [''webtop1'', ''webtop2'', ''webtop3'']"

record options =
  browserURL :: "string option"
  wsEndpoint :: "string option"
  wsHeaders :: "(string \<times> string) list option"
  devtools :: bool

text \<open>
  Lines 129 to 158 of \<open>ensureBrowserConnected\<close>: the connection target for the error
  message and the options for \<open>puppeteer.connect\<close>.
\<close>

definition connection_details :: "'u env \<Rightarrow> options \<Rightarrow> (string option \<times> connect_options) io" where
  "connection_details env opts =
     io_bind
       (if \<not> truthy (browserURL opts) \<and> \<not> truthy (wsEndpoint opts)
        then io_bind (discoverWebtopBrowser env) (\<lambda>found.
               case found of
                 Some d \<Rightarrow>
                   io_return (Some (d_wsEndpoint d),
                              Some (d_container d @ '' ('' @ d_ip d @ '':'' @ show_nat (d_port d) @ '')''))
               | None \<Rightarrow>
                   io_throw (new_Error ''No browserURL or wsEndpoint provided, and auto-discovery found no running webtop containers with Chrome DevTools''))
        else io_return (wsEndpoint opts, js_or (browserURL opts) (wsEndpoint opts)))
       (\<lambda>(ws, connectionTarget).
          if truthy ws
          then io_return (connectionTarget,
                 \<lparr>browserWSEndpoint = ws, headers = wsHeaders opts, protocolTimeout = 15000\<rparr>)
          else if truthy (browserURL opts)
          then io_bind (resolveWsFromBrowserURL env (template (browserURL opts)) 3000) (\<lambda>resolved.
                 io_return (connectionTarget,
                   \<lparr>browserWSEndpoint = Some resolved, headers = None, protocolTimeout = 15000\<rparr>))
          else io_return (connectionTarget,
                 \<lparr>browserWSEndpoint = None, headers = None, protocolTimeout = 15000\<rparr>))"

text \<open>Lines 165 to 171: the warm-up inside the inner \<open>try\<close>.\<close>

definition warm_up :: "'u env \<Rightarrow> ref \<Rightarrow> unit io" where
  "warm_up env b =
     io_bind (external (BrowserPages b) (\<lambda>h. pages_result env h b)) (\<lambda>pages.
       case pages of
         [] \<Rightarrow> io_return ()
       | page # _ \<Rightarrow>
           io_bind (external (CreateCDPSession page) (\<lambda>h. createCDPSession_result env h page))
             (\<lambda>client.
                io_bind (io_catch (sendWithTimeout env client ''Runtime.enable'' 1000)
                           (\<lambda>_. io_return ()))
                  (\<lambda>_. io_catch (sendWithTimeout env client ''Page.enable'' 1000)
                          (\<lambda>_. io_return ()))))"

text \<open>Lines 160 to 182: the outer \<open>try\<close> with its \<open>catch\<close>.\<close>

definition connect_and_warm_up :: "'u env \<Rightarrow> string option \<Rightarrow> connect_options \<Rightarrow> ref io" where
  "connect_and_warm_up env connectionTarget connectOptions =
     io_catch
       (io_bind (connectWithTimeout env connectOptions 8000) (\<lambda>b.
          io_bind (modify (\<lambda>s. s\<lparr>browser_var := Some b\<rparr>)) (\<lambda>_.
            io_bind (io_catch (warm_up env b) (\<lambda>_. io_return ())) (\<lambda>_.
              io_return b))))
       (\<lambda>error.
          io_throw (Error ''Error''
            (''Failed to connect to Chrome DevTools at '' @ template connectionTarget @ '': '' @
             message error)
            (Some error)))"

definition ensureBrowserConnected :: "'u env \<Rightarrow> options \<Rightarrow> ref io" where
  "ensureBrowserConnected env opts =
     (\<lambda>s. case connected_browser s of
             Some b \<Rightarrow> (Inr b, s)
           | None \<Rightarrow>
               io_bind (connection_details env opts)
                 (\<lambda>(connectionTarget, connectOptions).
                    connect_and_warm_up env connectionTarget connectOptions) s)"

text \<open>\<open>makeTargetFilter(devtools)\<close>, applied to the URL of a target.\<close>

definition targetFilter :: "bool \<Rightarrow> string \<Rightarrow> bool" where
  "targetFilter dt url =
     (if url = ''chrome://newtab/'' then True
      else \<not> list_ex (\<lambda>prefix. take (length prefix) url = prefix)
                 ([''chrome://'', ''chrome-extension://'', ''chrome-untrusted://''] @
                  (if \<not> dt then [''devtools://''] else [])))"

text \<open>\<open>s.includes(t)\<close>.\<close>

definition str_includes :: "string \<Rightarrow> string \<Rightarrow> bool" where
  "str_includes s t = list_ex (\<lambda>i. take (length t) (drop i s) = t) [0..<Suc (length s)]"

definition channel_name :: "string \<Rightarrow> string option \<Rightarrow> string" where
  "channel_name base ch =
     (if truthy ch \<and> ch \<noteq> Some ''stable'' then base @ ''-'' @ template ch else base)"

text \<open>
  \<open>launch\<close>: the profile directory (made under the home directory unless the launch is
  isolated or a directory is given), the arguments, the call of \<open>puppeteer.launch\<close>,
  the resize of the first page when a viewport is asked for, and the \<open>catch\<close> that
  rewords the error of a profile already in use.
\<close>

definition launch :: "'u env \<Rightarrow> launch_options \<Rightarrow> ref io" where
  "launch env lopts =
     io_bind
       (if \<not> isolated lopts \<and> \<not> truthy (userDataDir lopts)
        then io_bind
               (external
                  (Mkdir (homedir env @ ''/.cache/chrome-devtools-mcp/'' @
                          channel_name ''chrome-profile'' (channel lopts)))
                  (\<lambda>h. mkdir_result env h
                         (homedir env @ ''/.cache/chrome-devtools-mcp/'' @
                          channel_name ''chrome-profile'' (channel lopts))))
               (\<lambda>_. io_return (Some (homedir env @ ''/.cache/chrome-devtools-mcp/'' @
                                      channel_name ''chrome-profile'' (channel lopts))))
        else io_return (userDataDir lopts))
       (\<lambda>dir.
          io_catch
            (io_bind
               (external
                  (PuppeteerLaunch
                     \<lparr>cfg_channel = (if \<not> truthy (executablePath lopts)
                                     then Some (channel_name ''chrome'' (channel lopts)) else None),
                      cfg_devtools = launch_devtools lopts,
                      cfg_executablePath = executablePath lopts,
                      cfg_userDataDir = dir,
                      cfg_headless = headless lopts,
                      cfg_args = (case launch_args lopts of None \<Rightarrow> [] | Some xs \<Rightarrow> xs) @
                                 [''--hide-crash-restore-bubble''] @
                                 (if headless lopts then [''--screen-info={3840x2160}''] else []) @
                                 (if launch_devtools lopts then [''--auto-open-devtools-for-tabs'']
                                  else []),
                      cfg_acceptInsecureCerts = acceptInsecureCerts lopts\<rparr>)
                  (\<lambda>h. launch_result env h
                     \<lparr>cfg_channel = (if \<not> truthy (executablePath lopts)
                                     then Some (channel_name ''chrome'' (channel lopts)) else None),
                      cfg_devtools = launch_devtools lopts,
                      cfg_executablePath = executablePath lopts,
                      cfg_userDataDir = dir,
                      cfg_headless = headless lopts,
                      cfg_args = (case launch_args lopts of None \<Rightarrow> [] | Some xs \<Rightarrow> xs) @
                                 [''--hide-crash-restore-bubble''] @
                                 (if headless lopts then [''--screen-info={3840x2160}''] else []) @
                                 (if launch_devtools lopts then [''--auto-open-devtools-for-tabs'']
                                  else []),
                      cfg_acceptInsecureCerts = acceptInsecureCerts lopts\<rparr>))
               (\<lambda>b.
                  io_bind (modify (\<lambda>s. s\<lparr>live := insert b (live s)\<rparr>)) (\<lambda>_.
                    io_bind
                      (case viewport lopts of
                         None \<Rightarrow> io_return ()
                       | Some (width, height) \<Rightarrow>
                           io_bind (external (BrowserPages b) (\<lambda>h. pages_result env h b))
                             (\<lambda>pages.
                                case pages of
                                  [] \<Rightarrow> io_return ()
                                | page # _ \<Rightarrow>
                                    external (Resize page width height)
                                      (\<lambda>h. resize_result env h page width height)))
                      (\<lambda>_. io_return b))))
            (\<lambda>error.
               if truthy dir \<and> str_includes (message error) ''The browser is already running''
               then io_throw (Error ''Error''
                      (''The browser is already running for '' @ template dir @
                       ''. Use --isolated to run multiple browser instances.'')
                      (Some error))
               else io_throw error))"

definition ensureBrowserLaunched :: "'u env \<Rightarrow> launch_options \<Rightarrow> ref io" where
  "ensureBrowserLaunched env lopts =
     (\<lambda>s. case connected_browser s of
             Some b \<Rightarrow> (Inr b, s)
           | None \<Rightarrow>
               io_bind (launch env lopts) (\<lambda>b.
                 io_bind (modify (\<lambda>s. s\<lparr>browser_var := Some b\<rparr>)) (\<lambda>_. io_return b)) s)"

section \<open>main.js: the context accessor\<close>

text \<open>
  Modelled from the spec: \<open>McpContext.from\<close> (McpContext.js is not among the sources)
  builds the session context, a capability view bound to the given connection. It is a
  new object whose field \<open>browser\<close> is that connection, as \<open>getContext\<close> and the
  handlers read it; its other fields are the environment's.
\<close>

definition McpContext_from :: "'u env \<Rightarrow> ref \<Rightarrow> ref io" where
  "McpContext_from env b =
     io_bind (external (McpContextFrom b) (\<lambda>h. McpContext_fields env h b)) (\<lambda>props.
       (\<lambda>s. (Inr (next_ref s),
               s\<lparr>heap := (heap s)(next_ref s \<mapsto> props(''browser'' \<mapsto> BrowserRef b)),
                 next_ref := Suc (next_ref s)\<rparr>)))"

text \<open>
  \<open>withTimeout\<close> races a call with a timer. When the timer fires first the caller
  gets the timeout error; the call is not cancelled, and the model lets it run to its end
  before the caller goes on.
\<close>

definition withTimeout :: "'u env \<Rightarrow> 'a io \<Rightarrow> nat \<Rightarrow> string \<Rightarrow> 'a io" where
  "withTimeout env promise ms label =
     (\<lambda>s. case promise s of
             (r, s') \<Rightarrow>
               if timer_first env (events s) label
               then (Inl (new_Error (label @ '' timed out after '' @ show_nat ms @ ''ms'')), s')
               else (r, s'))"

record cli_args =
  browserUrl :: "string option"
  arg_wsEndpoint :: "string option"
  arg_wsHeaders :: "(string \<times> string) list option"
  chromeArg :: "string list option"
  proxyServer :: "string option"
  experimentalDevtools :: "bool option"
  arg_headless :: bool
  arg_executablePath :: "string option"
  arg_channel :: "string option"
  arg_isolated :: bool
  arg_viewport :: "(nat \<times> nat) option"
  arg_acceptInsecureCerts :: bool

definition extraArgs :: "cli_args \<Rightarrow> string list" where
  "extraArgs args =
     (case chromeArg args of None \<Rightarrow> [] | Some xs \<Rightarrow> xs) @
     (if truthy (proxyServer args) then [''--proxy-server='' @ template (proxyServer args)] else [])"

definition devtools_flag :: "cli_args \<Rightarrow> bool" where
  "devtools_flag args = (case experimentalDevtools args of None \<Rightarrow> False | Some d \<Rightarrow> d)"

text \<open>\<open>context?.browser\<close>.\<close>

definition context_browser :: "state \<Rightarrow> val option" where
  "context_browser s =
     (case context_var s of
        None \<Rightarrow> None
      | Some c \<Rightarrow> (case heap s c of None \<Rightarrow> None | Some props \<Rightarrow> props ''browser''))"

definition getContext :: "'u env \<Rightarrow> cli_args \<Rightarrow> ref io" where
  "getContext env args =
     io_bind
       (io_catch
          (withTimeout env
             (ensureBrowserConnected env
                \<lparr>browserURL = browserUrl args, wsEndpoint = arg_wsEndpoint args,
                 wsHeaders = arg_wsHeaders args, devtools = devtools_flag args\<rparr>)
             12000 ''connect to Chrome'')
          (\<lambda>connectError.
             if \<not> truthy (browserUrl args) \<and> \<not> truthy (arg_wsEndpoint args)
             then ensureBrowserLaunched env
                    \<lparr>headless = arg_headless args, executablePath = arg_executablePath args,
                     channel = arg_channel args, isolated = arg_isolated args,
                     userDataDir = None, viewport = arg_viewport args,
                     launch_args = Some (extraArgs args),
                     acceptInsecureCerts = arg_acceptInsecureCerts args,
                     launch_devtools = devtools_flag args\<rparr>
             else io_throw connectError))
       (\<lambda>browser s.
          case context_var s of
            None \<Rightarrow>
              io_bind (McpContext_from env browser) (\<lambda>c.
                io_bind (modify (\<lambda>s. s\<lparr>context_var := Some c\<rparr>)) (\<lambda>_. io_return c)) s
          | Some c \<Rightarrow>
              if context_browser s \<noteq> Some (BrowserRef browser)
              then io_bind (McpContext_from env browser) (\<lambda>c'.
                     io_bind (modify (\<lambda>s. s\<lparr>context_var := Some c'\<rparr>)) (\<lambda>_. io_return c')) s
              else (Inr c, s))"

section \<open>browser-management.js: switching to another browser\<close>

definition isIp :: "string \<Rightarrow> bool" where
  "isIp h =
     (length (split_on CHR ''.'' h) = 4 \<and>
      list_all (\<lambda>p. 1 \<le> length p \<and> length p \<le> 3 \<and> list_all is_digit p) (split_on CHR ''.'' h))"

definition resolveHostToIp :: "'u env \<Rightarrow> string \<Rightarrow> string option io" where
  "resolveHostToIp env h =
     io_catch
       (io_bind (external (DnsLookup h) (\<lambda>hist. dns_lookup_result env hist h))
          (\<lambda>address. io_return (Some address)))
       (\<lambda>_. io_return None)"

definition fetchJsonVersion :: "'u env \<Rightarrow> string \<Rightarrow> nat \<Rightarrow> version_info io" where
  "fetchJsonVersion env httpBaseUrl timeoutMs =
     (case new_URL (URL env) httpBaseUrl of
        None \<Rightarrow> io_throw (new_TypeError ''Invalid URL'')
      | Some u \<Rightarrow>
          (let base = protocol (URL env) u @ ''//'' @ hostname (URL env) u @ '':'' @
                      (if port (URL env) u \<noteq> [] then port (URL env) u
                       else if protocol (URL env) u = ''https:'' then ''443'' else ''80'')
           in io_bind
                (external (Fetch (base @ ''/json/version''))
                   (\<lambda>h. fetch_result env h (base @ ''/json/version'') timeoutMs))
                (\<lambda>res.
                   if \<not> ok res then io_throw (new_Error (''HTTP '' @ show_nat (status res)))
                   else (\<lambda>s. (json_body res, s)))))"

text \<open>\<open>e.message || String(e)\<close>.\<close>

definition reason :: "js_error \<Rightarrow> string" where
  "reason e = (if message e \<noteq> [] then message e else String_of_error e)"

record probe_result =
  newBrowser :: ref
  resolvedHttpUrl :: string
  resolved_wsEndpoint :: string

text \<open>
  The \<open>try\<close> block of the loop of \<open>tryCandidatesAndConnect\<close> (lines 227 to 234): the
  attempt on one candidate.
\<close>

definition candidate_attempt ::
  "'u env \<Rightarrow> (options \<Rightarrow> ref io) \<Rightarrow> (string \<Rightarrow> unit io) \<Rightarrow> string \<Rightarrow> probe_result io"
where
  "candidate_attempt env ensureConnected log candidate =
     io_bind (fetchJsonVersion env candidate 2000) (\<lambda>data.
       if \<not> truthy (webSocketDebuggerUrl data)
       then io_throw (new_Error ''No webSocketDebuggerUrl in /json/version'')
       else
         io_bind (log (''Resolved '' @ candidate @ '' -> '' @
                       template (webSocketDebuggerUrl data))) (\<lambda>_.
           io_bind (ensureConnected
                      \<lparr>browserURL = None, wsEndpoint = webSocketDebuggerUrl data,
                       wsHeaders = None, devtools = False\<rparr>) (\<lambda>b.
             io_return \<lparr>newBrowser = b, resolvedHttpUrl = candidate,
                        resolved_wsEndpoint = template (webSocketDebuggerUrl data)\<rparr>)))"

text \<open>
  One turn of the loop: \<open>Inr\<close> is the value the function returns from inside the
  \<open>try\<close>, \<open>Inl\<close> the line the \<open>catch\<close> pushes onto \<open>errors\<close> before it logs
  the failure.
\<close>

definition try_candidate ::
  "'u env \<Rightarrow> (options \<Rightarrow> ref io) \<Rightarrow> (string \<Rightarrow> unit io) \<Rightarrow> string \<Rightarrow> (string + probe_result) io"
where
  "try_candidate env ensureConnected log candidate =
     io_catch
       (io_bind (candidate_attempt env ensureConnected log candidate) (\<lambda>result.
          io_return (Inr result)))
       (\<lambda>e. io_bind (log (''Failed candidate '' @ candidate @ '': '' @ reason e)) (\<lambda>_.
              io_return (Inl (candidate @ '': '' @ reason e))))"

definition aggregate_error :: "string list \<Rightarrow> js_error" where
  "aggregate_error errors =
     new_Error (''Could not connect to any candidate endpoint:'' @ [CHR 0x0A] @
                join [CHR 0x0A] (map (\<lambda>e. ''- '' @ e) errors))"

fun candidates_loop ::
  "'u env \<Rightarrow> (options \<Rightarrow> ref io) \<Rightarrow> (string \<Rightarrow> unit io) \<Rightarrow> string list \<Rightarrow> string list \<Rightarrow>
   probe_result io"
where
  "candidates_loop env ensureConnected log errors [] = io_throw (aggregate_error errors)"
| "candidates_loop env ensureConnected log errors (candidate # rest) =
     io_bind (try_candidate env ensureConnected log candidate) (\<lambda>r.
       case r of
         Inr result \<Rightarrow> io_return result
       | Inl line \<Rightarrow> candidates_loop env ensureConnected log (errors @ [line]) rest)"

definition tryCandidatesAndConnect ::
  "'u env \<Rightarrow> string list \<Rightarrow> (options \<Rightarrow> ref io) \<Rightarrow> (string \<Rightarrow> unit io) \<Rightarrow> probe_result io"
where
  "tryCandidatesAndConnect env candidates ensureConnected log =
     candidates_loop env ensureConnected log [] candidates"

definition pushCandidatesForHostPort :: "string list \<Rightarrow> string \<Rightarrow> int \<Rightarrow> string list" where
  "pushCandidatesForHostPort candidates hostOrIp p =
     candidates @ [''http://'' @ hostOrIp @ '':'' @ show_int p] @
     (if p \<noteq> 9999 then [''http://'' @ hostOrIp @ '':9999''] else []) @
     (if p \<noteq> 9222 then [''http://'' @ hostOrIp @ '':9222''] else [])"

record params =
  p_container :: "string option"
  p_port :: "int option"
  p_browserUrl :: "string option"
  p_wsEndpoint :: "string option"

definition quoted :: "string \<Rightarrow> string" where
  "quoted t = [CHR 0x22] @ t @ [CHR 0x22]"

text \<open>Lines 264 to 268: the disconnect of the current browser.\<close>

definition disconnect_current :: "'u env \<Rightarrow> ref \<Rightarrow> unit io" where
  "disconnect_current env ctx =
     (\<lambda>s. case heap s ctx of
             None \<Rightarrow> (Inl (new_TypeError ''Cannot read properties of undefined''), s)
           | Some props \<Rightarrow>
               (case props ''browser'' of
                  Some (BrowserRef b) \<Rightarrow>
                    if b \<in> live s
                    then io_bind (logger ''Disconnecting from current browser'') (\<lambda>_.
                           io_bind (external (Disconnect b) (\<lambda>h. disconnect_result env h b)) (\<lambda>_.
                             modify (\<lambda>s. s\<lparr>live := live s - {b}\<rparr>))) s
                    else (Inr (), s)
                | _ \<Rightarrow> (Inr (), s)))"

text \<open>Lines 281 to 311: the candidate list.\<close>

definition build_candidates :: "'u env \<Rightarrow> params \<Rightarrow> string list io" where
  "build_candidates env ps =
     (if truthy (p_container ps)
      then
        io_bind (logger (''Resolving container name '' @ quoted (template (p_container ps)) @
                         '' to IP'')) (\<lambda>_.
          io_bind (resolveHostToIp env (template (p_container ps))) (\<lambda>ip.
            if \<not> truthy ip
            then io_throw (new_Error (''Unable to resolve container '' @
                   quoted (template (p_container ps)) @ '' to an IP address''))
            else
              (let p = (case p_port ps of None \<Rightarrow> 9999 | Some n \<Rightarrow> if n = 0 then 9999 else n)
               in io_bind (logger (''Container '' @ quoted (template (p_container ps)) @
                                   '' resolved to '' @ template ip @ ''. Trying ports ['' @
                                   show_int p @ '', 9999, 9222]'')) (\<lambda>_.
                    io_return (pushCandidatesForHostPort [] (template ip) p)))))
      else if truthy (p_browserUrl ps)
      then
        (case new_URL (URL env) (template (p_browserUrl ps)) of
           None \<Rightarrow> io_throw (new_TypeError ''Invalid URL'')
         | Some u \<Rightarrow>
             io_bind
               (if \<not> isIp (hostname (URL env) u)
                then io_bind (logger (''Resolving hostname '' @ quoted (hostname (URL env) u) @
                                      '' to IP''))
                       (\<lambda>_. io_bind (resolveHostToIp env (hostname (URL env) u)) (\<lambda>resolved.
                          if \<not> truthy resolved
                          then io_throw (new_Error (''Unable to resolve hostname '' @
                                 quoted (hostname (URL env) u) @ '' to an IP address''))
                          else io_return (template resolved)))
                else io_return (hostname (URL env) u))
               (\<lambda>hostIp.
                  (let p = (if port (URL env) u \<noteq> [] then int (read_nat (port (URL env) u))
                            else if protocol (URL env) u = ''https:'' then 443 else 80)
                   in io_bind (logger (''Normalized browserUrl to IP '' @ hostIp @ '':'' @
                                       show_int p)) (\<lambda>_.
                        io_return (pushCandidatesForHostPort [] hostIp p)))))
      else io_return [])"

text \<open>
  Lines 270 to 318: the new browser, the HTTP URL that answered and the WebSocket
  endpoint.
\<close>

definition connect_new :: "'u env \<Rightarrow> params \<Rightarrow> (ref \<times> string option \<times> string option) io" where
  "connect_new env ps =
     (if truthy (p_wsEndpoint ps)
      then
        io_bind (logger (''Connecting via provided WebSocket endpoint: '' @
                         template (p_wsEndpoint ps))) (\<lambda>_.
          io_bind (ensureBrowserConnected env
                     \<lparr>browserURL = None, wsEndpoint = p_wsEndpoint ps, wsHeaders = None,
                      devtools = False\<rparr>) (\<lambda>b.
            io_return (b, None, p_wsEndpoint ps)))
      else
        io_bind (build_candidates env ps) (\<lambda>candidates.
          io_bind (tryCandidatesAndConnect env candidates (ensureBrowserConnected env) logger)
            (\<lambda>result.
               io_return (newBrowser result, Some (resolvedHttpUrl result),
                          Some (resolved_wsEndpoint result)))))"

text \<open>
  \<open>Object.assign(target, source)\<close>: every own enumerable property of the source is
  written onto the target; the other fields of the target stay.
\<close>

definition Object_assign :: "ref \<Rightarrow> ref \<Rightarrow> unit io" where
  "Object_assign target source =
     (\<lambda>s. case heap s target of
             None \<Rightarrow> (Inl (new_TypeError ''Cannot convert undefined or null to object''), s)
           | Some t \<Rightarrow>
               (case heap s source of
                  None \<Rightarrow> (Inr (), s)
                | Some props \<Rightarrow> (Inr (), s\<lparr>heap := (heap s)(target \<mapsto> t ++ props)\<rparr>)))"

text \<open>Lines 320 to 330: the new context, its assignment onto the old one, the response.\<close>

definition finish_switch ::
  "'u env \<Rightarrow> params \<Rightarrow> ref \<Rightarrow> ref \<Rightarrow> string option \<Rightarrow> string option \<Rightarrow> unit io"
where
  "finish_switch env ps ctx b resolvedHttp resolvedWs =
     io_bind (McpContext_from env b) (\<lambda>newContext.
       io_bind (Object_assign ctx newContext) (\<lambda>_.
         io_bind (modify (\<lambda>s. s\<lparr>currentBrowserUrl := resolvedHttp,
                                  currentWsEndpoint := resolvedWs\<rparr>)) (\<lambda>_.
           io_bind (modify (\<lambda>s. s\<lparr>events := events s @
                      [AppendResponseLine (''Successfully switched to browser at '' @
                         template (js_or (p_wsEndpoint ps) (js_or resolvedWs
                           (js_or resolvedHttp (js_or (p_browserUrl ps) (p_container ps))))))]\<rparr>))
             (\<lambda>_. modify (\<lambda>s. s\<lparr>events := events s @ [SetIncludePages True]\<rparr>)))))"

definition switchBrowser_handler :: "'u env \<Rightarrow> params \<Rightarrow> ref \<Rightarrow> unit io" where
  "switchBrowser_handler env ps ctx =
     (if \<not> truthy (p_container ps) \<and> \<not> truthy (p_browserUrl ps) \<and> \<not> truthy (p_wsEndpoint ps)
      then io_throw (new_Error ''Provide one of: container, browserUrl, or wsEndpoint'')
      else
        io_bind (disconnect_current env ctx) (\<lambda>_.
          io_bind (connect_new env ps) (\<lambda>(b, resolvedHttp, resolvedWs).
            finish_switch env ps ctx b resolvedHttp resolvedWs)))"

section \<open>Notions used in the statements\<close>

text \<open>How often a local Chrome was started.\<close>

fun is_launch :: "event \<Rightarrow> bool" where
  "is_launch (PuppeteerLaunch cfg) = True"
| "is_launch ev = False"

definition launches :: "event list \<Rightarrow> nat" where
  "launches evs = length (filter is_launch evs)"

named_theorems preserves_intros

text \<open>A computation that never changes what \<open>g\<close> reads from the state.\<close>

definition preserves :: "(state \<Rightarrow> 'x) \<Rightarrow> 'a io \<Rightarrow> bool" where
  "preserves g m = (\<forall>s. g (snd (m s)) = g s)"

text \<open>
  A reading of the state that does not see calls to the outside (other than launches),
  connected flags or the active browser.
\<close>

definition unobtrusive :: "(state \<Rightarrow> 'x) \<Rightarrow> bool" where
  "unobtrusive g =
     ((\<forall>s ev. \<not> is_launch ev \<longrightarrow> g (s\<lparr>events := events s @ [ev]\<rparr>) = g s) \<and>
      (\<forall>s l. g (s\<lparr>live := l\<rparr>) = g s) \<and>
      (\<forall>s b. g (s\<lparr>browser_var := b\<rparr>) = g s))"

text \<open>A computation whose every returned value satisfies \<open>Q\<close> in the state it leaves.\<close>

definition ensures :: "'a io \<Rightarrow> ('a \<Rightarrow> state \<Rightarrow> bool) \<Rightarrow> bool" where
  "ensures m Q = (\<forall>s x s'. m s = (Inr x, s') \<longrightarrow> Q x s')"

text \<open>The browser \<open>b\<close> is the active connection.\<close>

definition active :: "ref \<Rightarrow> state \<Rightarrow> bool" where
  "active b s = (browser_var s = Some b \<and> b \<in> live s)"

text \<open>The field \<open>f\<close> of the object at \<open>r\<close>.\<close>

definition field_of :: "state \<Rightarrow> ref \<Rightarrow> string \<Rightarrow> val option" where
  "field_of s r f = (case heap s r of None \<Rightarrow> None | Some props \<Rightarrow> props f)"

text \<open>
  The candidate ports in the spec's words: the requested port, the forwarding port and
  the default debug port, in this order, each (address, port) pair kept where it first
  stands.
\<close>

fun dedup :: "'a list \<Rightarrow> 'a list" where
  "dedup [] = []"
| "dedup (x # xs) = x # filter (\<lambda>y. y \<noteq> x) (dedup xs)"

definition candidate_url :: "string \<times> int \<Rightarrow> string" where
  "candidate_url c = ''http://'' @ fst c @ '':'' @ show_int (snd c)"

definition spec_candidates :: "string \<Rightarrow> int \<Rightarrow> string list" where
  "spec_candidates h p = map candidate_url (dedup [(h, p), (h, 9999), (h, 9222)])"

text \<open>
  The attempts of \<open>tryCandidatesAndConnect\<close> on candidates that all fail, one after the
  other: the error that each attempt throws, in the order of the candidates, and the
  state reached, each failure being logged before the next attempt starts; \<open>None\<close>
  when an attempt does not fail.
\<close>

fun failures ::
  "'u env \<Rightarrow> (options \<Rightarrow> ref io) \<Rightarrow> (string \<Rightarrow> unit io) \<Rightarrow> string list \<Rightarrow> state \<Rightarrow>
   (js_error list \<times> state) option"
where
  "failures env ensureConnected log [] s = Some ([], s)"
| "failures env ensureConnected log (candidate # rest) s =
     (case candidate_attempt env ensureConnected log candidate s of
        (Inl e, s1) \<Rightarrow>
          (case log (''Failed candidate '' @ candidate @ '': '' @ reason e) s1 of
             (Inr u, s2) \<Rightarrow>
               (case failures env ensureConnected log rest s2 of
                  None \<Rightarrow> None
                | Some (es, s3) \<Rightarrow> Some (e # es, s3))
           | (Inl x, s2) \<Rightarrow> None)
      | (Inr result, s1) \<Rightarrow> None)"

text \<open>
  The port a URL names: the number its \<open>port\<close> property shows, and the default port of
  its scheme when the property is empty. The standard keeps a port that is the default of
  the scheme as no port, so the property of a URL object is empty or the shortest decimal
  numeral of a port other than the default: it is canonical.
\<close>

definition default_port_of :: "string \<Rightarrow> nat option" where
  "default_port_of proto =
     (if proto = ''http:'' \<or> proto = ''ws:'' then Some 80
      else if proto = ''https:'' \<or> proto = ''wss:'' then Some 443
      else if proto = ''ftp:'' then Some 21
      else None)"

definition effective_port :: "'u url_class \<Rightarrow> 'u \<Rightarrow> nat option" where
  "effective_port U u =
     (if port U u = [] then default_port_of (protocol U u) else Some (read_nat (port U u)))"

definition canonical_port :: "'u url_class \<Rightarrow> 'u \<Rightarrow> bool" where
  "canonical_port U u =
     (port U u = [] \<or>
      (port U u = show_nat (read_nat (port U u)) \<and>
       Some (read_nat (port U u)) \<noteq> default_port_of (protocol U u)))"

section \<open>Scenarios\<close>

subsection \<open>A URL class for the examples\<close>

text \<open>
  To run the program on an example, a URL class is needed. This one knows the addresses
  of the examples: one of the schemes http, https, ws, wss, then \<open>://\<close>, a host, an
  optional port and an optional path, already in the form the serializer prints. A host
  is a lower-case domain name, a dotted-quad IPv4 address, or the IPv6 loopback in
  brackets. On such a string it does what the standard prescribes: the port becomes a
  number (the default port of the scheme is dropped), an empty path becomes \<open>/\<close>,
  and nothing else changes. It is not Node's class: its parser answers \<open>None\<close> on
  every other string, whether Node's parser accepts it (upper case, credentials, a query
  or a fragment, percent escapes, dot segments, other IPv6 literals, other schemes) or
  rejects it. The program is not defined through it, and what is stated for every URL
  class does not depend on it. It serves to run the program on the examples, which stay
  within the strings it knows; the one string of the examples on which it answers
  \<open>None\<close>, \<open>not a url\<close>, has no scheme and does not parse in Node either.
\<close>

record url =
  scheme :: string
  host :: string
  port_number :: "nat option"
  pathname :: string

definition special_schemes :: "string list" where
  "special_schemes = [''http'', ''https'', ''ws'', ''wss'']"

definition default_port :: "string \<Rightarrow> nat" where
  "default_port s = (if s = ''http'' \<or> s = ''ws'' then 80 else 443)"

definition domain_char :: "char \<Rightarrow> bool" where
  "domain_char c = (c \<in> set ''abcdefghijklmnopqrstuvwxyz0123456789-.'')"

definition hex_digit :: "char \<Rightarrow> bool" where
  "hex_digit c = (c \<in> set ''0123456789abcdef'')"

definition is_decimal :: "string \<Rightarrow> bool" where
  "is_decimal s = (s \<noteq> [] \<and> list_all is_digit s)"

text \<open>
  The standard parses a host whose last label is a number (decimal, or hexadecimal after
  \<open>0x\<close>) as an IPv4 address; the model takes the four-part decimal notation without
  leading zeros, which the parser leaves as it is.
\<close>

definition numeric_label :: "string \<Rightarrow> bool" where
  "numeric_label l = (is_decimal l \<or> (take 2 l = ''0x'' \<and> list_all hex_digit (drop 2 l)))"

definition ipv4_part :: "string \<Rightarrow> bool" where
  "ipv4_part s = (is_decimal s \<and> (length s = 1 \<or> hd s \<noteq> CHR ''0'') \<and> read_nat s \<le> 255)"

definition canonical_ipv4 :: "string \<Rightarrow> bool" where
  "canonical_ipv4 h = (length (split_on CHR ''.'' h) = 4 \<and> list_all ipv4_part (split_on CHR ''.'' h))"

definition plain_label :: "string \<Rightarrow> bool" where
  "plain_label l = (l \<noteq> [] \<and> take 4 l \<noteq> ''xn--'')"

definition valid_domain :: "string \<Rightarrow> bool" where
  "valid_domain h =
     (list_all domain_char h \<and> list_all plain_label (split_on CHR ''.'' h) \<and>
      (if numeric_label (last (split_on CHR ''.'' h)) then canonical_ipv4 h else True))"

definition valid_host :: "string \<Rightarrow> bool" where
  "valid_host h = (h = ''[::1]'' \<or> valid_domain h)"

definition path_char :: "char \<Rightarrow> bool" where
  "path_char c =
     (c \<in> set ''abcdefghijklmnopqrstuvwxyzABCDEFGHIJKLMNOPQRSTUVWXYZ0123456789-._~/'')"

definition plain_segment :: "string \<Rightarrow> bool" where
  "plain_segment g = (g \<noteq> ''.'' \<and> g \<noteq> ''..'')"

definition valid_path :: "string \<Rightarrow> bool" where
  "valid_path t =
     (t = [] \<or> (hd t = CHR ''/'' \<and> list_all path_char t \<and>
                 list_all plain_segment (split_on CHR ''/'' t)))"

text \<open>The authority, split into the host and what follows it.\<close>

definition split_authority :: "string \<Rightarrow> string \<times> string" where
  "split_authority a =
     (if take 5 a = ''[::1]'' then (''[::1]'', drop 5 a)
      else (takeWhile (\<lambda>c. c \<noteq> CHR '':'') a, dropWhile (\<lambda>c. c \<noteq> CHR '':'') a))"

text \<open>
  What follows the host is nothing, or a colon and decimal digits (none: no port); a port
  above 65535 is an error.
\<close>

definition valid_port_part :: "string \<Rightarrow> bool" where
  "valid_port_part r =
     (r = [] \<or> (hd r = CHR '':'' \<and> list_all is_digit (tl r) \<and> read_nat (tl r) \<le> 65535))"

definition parse_port :: "string \<Rightarrow> string \<Rightarrow> nat option" where
  "parse_port s r =
     (if r = [] \<or> tl r = [] \<or> read_nat (tl r) = default_port s then None
      else Some (read_nat (tl r)))"

definition make_url :: "string \<Rightarrow> string \<Rightarrow> string \<Rightarrow> string \<Rightarrow> string \<Rightarrow> url option" where
  "make_url sch rest h r tail =
     (if sch \<in> set special_schemes \<and> take 3 rest = ''://'' \<and> valid_host h \<and>
         valid_port_part r \<and> valid_path tail
      then Some \<lparr>scheme = sch, host = h, port_number = parse_port sch r,
                 pathname = (if tail = [] then ''/'' else tail)\<rparr>
      else None)"

definition parse_plain :: "string \<Rightarrow> url option" where
  "parse_plain s =
     (let sch = takeWhile (\<lambda>c. c \<noteq> CHR '':'') s;
          rest = dropWhile (\<lambda>c. c \<noteq> CHR '':'') s;
          after = drop 3 rest;
          auth = takeWhile (\<lambda>c. c \<noteq> CHR ''/'') after;
          tail = dropWhile (\<lambda>c. c \<noteq> CHR ''/'') after
      in make_url sch rest (fst (split_authority auth)) (snd (split_authority auth)) tail)"

text \<open>The properties \<open>protocol\<close>, \<open>hostname\<close> and \<open>port\<close>, and \<open>toString()\<close>.\<close>

definition plain_protocol :: "url \<Rightarrow> string" where
  "plain_protocol u = scheme u @ '':''"

definition plain_hostname :: "url \<Rightarrow> string" where
  "plain_hostname u = host u"

definition plain_port :: "url \<Rightarrow> string" where
  "plain_port u = (case port_number u of None \<Rightarrow> [] | Some n \<Rightarrow> show_nat n)"

definition plain_toString :: "url \<Rightarrow> string" where
  "plain_toString u =
     scheme u @ ''://'' @ host u @
     (case port_number u of None \<Rightarrow> [] | Some n \<Rightarrow> CHR '':'' # show_nat n) @ pathname u"

text \<open>
  The assignments. A value assigned to \<open>hostname\<close> that is not a host leaves the URL as it was.
  An assignment to \<open>port\<close> reads the leading digits: the empty string removes the port,
  a value without leading digits or above 65535 changes nothing, and the default port of
  the URL's scheme is stored as no port.
\<close>

definition plain_set_hostname :: "url \<Rightarrow> string \<Rightarrow> url" where
  "plain_set_hostname u v = (if valid_host v then u\<lparr>host := v\<rparr> else u)"

definition plain_set_port :: "url \<Rightarrow> string \<Rightarrow> url" where
  "plain_set_port u v =
     (if v = [] then u\<lparr>port_number := None\<rparr>
      else if takeWhile is_digit v = [] \<or> 65535 < read_nat (takeWhile is_digit v) then u
      else u\<lparr>port_number :=
              (if read_nat (takeWhile is_digit v) = default_port (scheme u) then None
               else Some (read_nat (takeWhile is_digit v)))\<rparr>)"

definition plain_URL :: "url url_class" where
  "plain_URL =
     \<lparr>new_URL = parse_plain, protocol = plain_protocol, hostname = plain_hostname,
      port = plain_port, set_hostname = plain_set_hostname, set_port = plain_set_port,
      toString = plain_toString\<rparr>"

subsection \<open>Outside worlds and states\<close>

text \<open>
  An outside world in which every call fails and no timer fires. The scenarios run with
  the URL class of the examples.
\<close>

definition failing_env :: "url env" where
  "failing_env =
     \<lparr>URL = plain_URL,
      fetch_result = (\<lambda>h url t. Inl (new_TypeError ''fetch failed'')),
      execSync_result = (\<lambda>h cmd. Inl (new_Error ''Command failed'')),
      dns_lookup_result = (\<lambda>h n. Inl (new_Error ''getaddrinfo ENOTFOUND'')),
      connect_result = (\<lambda>h co. Rejected (new_Error ''connect ECONNREFUSED'')),
      homedir = ''/root'',
      mkdir_result = (\<lambda>h d. Inl (new_Error ''EACCES: permission denied'')),
      launch_result = (\<lambda>h lo. Inl (new_Error ''Failed to launch the browser process'')),
      resize_result = (\<lambda>h p w ht. Inl (new_Error ''Protocol error'')),
      pages_result = (\<lambda>h b. Inl (new_Error ''Protocol error'')),
      createCDPSession_result = (\<lambda>h p. Inl (new_Error ''Protocol error'')),
      send_result = (\<lambda>h c m. Pending),
      disconnect_result = (\<lambda>h b. Inl (new_Error ''disconnect failed'')),
      McpContext_fields = (\<lambda>h b. Inl (new_Error ''Protocol error'')),
      timer_first = (\<lambda>h l. False)\<rparr>"

text \<open>
  An outside world whose discovery endpoints all answer with the given control-channel
  URL; every other call fails.
\<close>

definition advertising :: "string \<Rightarrow> url env" where
  "advertising ws =
     failing_env\<lparr>fetch_result := (\<lambda>h url t.
        Inr \<lparr>ok = True, status = 200,
             json_body = Inr \<lparr>webSocketDebuggerUrl = Some ws,
                               webSocketDebuggerUrlLegacy = None\<rparr>\<rparr>)\<rparr>"

text \<open>Nothing connected yet; and browser 1 connected, with its context at reference 0.\<close>

definition fresh_state :: state where
  "fresh_state =
     \<lparr>browser_var = None, live = {}, context_var = None, heap = Map.empty, next_ref = 0,
      currentBrowserUrl = None, currentWsEndpoint = None, events = []\<rparr>"

definition connected_state :: state where
  "connected_state =
     \<lparr>browser_var = Some 1, live = {1}, context_var = Some 0,
      heap = [0 \<mapsto> [''browser'' \<mapsto> BrowserRef 1, ''logger'' \<mapsto> Opaque 0]], next_ref = 1,
      currentBrowserUrl = None, currentWsEndpoint = None, events = []\<rparr>"

definition ws_options :: options where
  "ws_options =
     \<lparr>browserURL = None, wsEndpoint = Some ''ws://10.0.0.5:9999/devtools/browser/x'',
      wsHeaders = None, devtools = False\<rparr>"

definition ws_params :: params where
  "ws_params =
     \<lparr>p_container = None, p_port = None, p_browserUrl = None,
      p_wsEndpoint = Some ''ws://10.0.0.5:9999/devtools/browser/x''\<rparr>"

definition some_launch_options :: launch_options where
  "some_launch_options =
     \<lparr>headless = True, executablePath = None, channel = None, isolated = False,
      userDataDir = None, viewport = None, launch_args = None, acceptInsecureCerts = False,
      launch_devtools = False\<rparr>"

definition hint_args :: cli_args where
  "hint_args =
     \<lparr>browserUrl = Some ''http://10.0.0.5:9999'', arg_wsEndpoint = None, arg_wsHeaders = None,
      chromeArg = None, proxyServer = None, experimentalDevtools = None, arg_headless = False,
      arg_executablePath = None, arg_channel = None, arg_isolated = False,
      arg_viewport = None, arg_acceptInsecureCerts = False\<rparr>"

definition forwarder_env :: "url env" where
  "forwarder_env =
     failing_env\<lparr>
       fetch_result := (\<lambda>h url t.
          if url = ''http://10.0.0.5:9999/json/version''
          then Inr \<lparr>ok = True, status = 200,
                    json_body = Inr \<lparr>webSocketDebuggerUrl =
                                       Some ''ws://10.0.0.5:9999/devtools/browser/x'',
                                     webSocketDebuggerUrlLegacy = None\<rparr>\<rparr>
          else Inl (new_TypeError ''fetch failed'')),
       connect_result := (\<lambda>h co.
          if browserWSEndpoint co = Some ''ws://10.0.0.5:9999/devtools/browser/x''
          then Resolved 2 else Rejected (new_Error ''connect ECONNREFUSED'')),
       disconnect_result := (\<lambda>h b. Inr ()),
       McpContext_fields := (\<lambda>h b. Inr [''logger'' \<mapsto> Opaque 7])\<rparr>"

text \<open>
  An outside world for the candidate prober: the forwarder at \<open>10.0.0.5:9999\<close>
  answers, \<open>10.0.0.6:9222\<close> answers with status 503, \<open>10.0.0.7:9222\<close> answers with
  a body that names no control channel, and nothing else is reachable.
\<close>

definition probing_env :: "url env" where
  "probing_env =
     forwarder_env\<lparr>
       fetch_result := (\<lambda>h url t.
          if url = ''http://10.0.0.5:9999/json/version''
          then Inr \<lparr>ok = True, status = 200,
                    json_body = Inr \<lparr>webSocketDebuggerUrl =
                                       Some ''ws://10.0.0.5:9999/devtools/browser/x'',
                                     webSocketDebuggerUrlLegacy = None\<rparr>\<rparr>
          else if url = ''http://10.0.0.6:9222/json/version''
          then Inr \<lparr>ok = False, status = 503,
                    json_body = Inl (new_Error ''Unexpected end of JSON input'')\<rparr>
          else if url = ''http://10.0.0.7:9222/json/version''
          then Inr \<lparr>ok = True, status = 200,
                    json_body = Inr \<lparr>webSocketDebuggerUrl = None,
                                     webSocketDebuggerUrlLegacy = None\<rparr>\<rparr>
          else Inl (new_TypeError ''fetch failed''))\<rparr>"

section \<open>Facts about numerals and URLs\<close>

lemma below_ten:
  "d < 10 \<Longrightarrow> d = 0 \<or> d = 1 \<or> d = 2 \<or> d = 3 \<or> d = 4 \<or> d = 5 \<or> d = 6 \<or> d = 7 \<or> d = 8 \<or> d = (9::nat)"
  by arith

lemma digit_val_char: "d < 10 \<Longrightarrow> digit_val (digit_char d) = d"
  by (drule below_ten, elim disjE) (simp_all add: digit_char_def digit_val_def)

lemma is_digit_char: "d < 10 \<Longrightarrow> is_digit (digit_char d)"
  by (drule below_ten, elim disjE) (simp_all add: digit_char_def is_digit_def)

lemma read_nat_snoc: "read_nat (xs @ [c]) = 10 * read_nat xs + digit_val c"
  by (simp add: read_nat_def)

lemma read_show_nat: "read_nat (show_nat n) = n"
proof (induction n rule: show_nat.induct)
  case (1 n)
  show ?case
  proof (cases "n < 10")
    case True
    then show ?thesis
      by (simp add: show_nat.simps [of n] read_nat_def digit_val_char)
  next
    case False
    with 1 show ?thesis
      by (simp add: show_nat.simps [of n] read_nat_snoc digit_val_char)
  qed
qed

lemma show_nat_digits: "list_all is_digit (show_nat n)"
proof (induction n rule: show_nat.induct)
  case (1 n)
  show ?case
  proof (cases "n < 10")
    case True
    then show ?thesis
      by (simp add: show_nat.simps [of n] is_digit_char)
  next
    case False
    with 1 show ?thesis
      by (simp add: show_nat.simps [of n] is_digit_char)
  qed
qed

lemma show_nat_nonempty: "show_nat n \<noteq> []"
  by (subst show_nat.simps) simp

lemma show_nat_inj: "show_nat m = show_nat n \<Longrightarrow> m = n"
  by (metis read_show_nat)

lemma takeWhile_all: "list_all P xs \<Longrightarrow> takeWhile P xs = xs"
  by (induction xs) auto

lemma make_url_Some:
  assumes "make_url sch rest h r tail = Some u"
  shows "valid_host h" and "valid_port_part r" and "sch \<in> set special_schemes"
    and "u = \<lparr>scheme = sch, host = h, port_number = parse_port sch r,
               pathname = (if tail = [] then ''/'' else tail)\<rparr>"
proof -
  have c: "sch \<in> set special_schemes \<and> take 3 rest = ''://'' \<and> valid_host h \<and>
           valid_port_part r \<and> valid_path tail"
  proof (rule ccontr)
    assume "\<not> ?thesis"
    then have "make_url sch rest h r tail = None"
      unfolding make_url_def by (rule if_not_P)
    with assms show False by simp
  qed
  then show "valid_host h" and "valid_port_part r" and "sch \<in> set special_schemes"
    by blast+
  from c have "make_url sch rest h r tail =
      Some \<lparr>scheme = sch, host = h, port_number = parse_port sch r,
            pathname = (if tail = [] then ''/'' else tail)\<rparr>"
    unfolding make_url_def by (rule if_P)
  with assms show "u = \<lparr>scheme = sch, host = h, port_number = parse_port sch r,
               pathname = (if tail = [] then ''/'' else tail)\<rparr>"
    by simp
qed

lemma parse_port_bound: "valid_port_part r \<Longrightarrow> parse_port sch r = Some n \<Longrightarrow> n \<le> 65535"
  by (auto simp: parse_port_def valid_port_part_def split: if_splits)

lemma parse_port_default: "parse_port sch r \<noteq> Some (default_port sch)"
  by (simp add: parse_port_def)

lemma parse_plain_host: "parse_plain s = Some u \<Longrightarrow> valid_host (host u)"
  unfolding parse_plain_def Let_def
  by (frule make_url_Some(4), drule make_url_Some(1)) simp

lemma parse_plain_port: "parse_plain s = Some u \<Longrightarrow> port_number u = Some n \<Longrightarrow> n \<le> 65535"
  unfolding parse_plain_def Let_def
  by (frule make_url_Some(4), drule make_url_Some(2)) (simp add: parse_port_bound)

lemma parse_plain_port_default:
  "parse_plain s = Some u \<Longrightarrow> port_number u \<noteq> Some (default_port (scheme u))"
  unfolding parse_plain_def Let_def
  by (drule make_url_Some(4)) (simp add: parse_port_default)

lemma parse_plain_scheme: "parse_plain s = Some u \<Longrightarrow> scheme u \<in> set special_schemes"
  unfolding parse_plain_def Let_def
  by (frule make_url_Some(4), drule make_url_Some(3)) simp

lemma set_hostname_parsed:
  "parse_plain s = Some v \<Longrightarrow> plain_set_hostname w (plain_hostname v) = w\<lparr>host := plain_hostname v\<rparr>"
  by (simp add: plain_set_hostname_def plain_hostname_def parse_plain_host)

lemma set_port_parsed:
  assumes "parse_plain s = Some v"
  shows "plain_set_port w (plain_port v) =
           w\<lparr>port_number := (if port_number v = Some (default_port (scheme w)) then None
                              else port_number v)\<rparr>"
proof (cases "port_number v")
  case None
  then show ?thesis by (simp add: plain_set_port_def plain_port_def)
next
  case (Some n)
  with assms have "n \<le> 65535" by (rule parse_plain_port)
  with Some show ?thesis
    by (simp add: plain_set_port_def plain_port_def show_nat_nonempty takeWhile_all show_nat_digits
        read_show_nat)
qed

lemma show_nat_small: "n < 10 \<Longrightarrow> show_nat n = [digit_char n]"
  by (subst show_nat.simps) simp

lemma show_nat_large:
  "\<not> n < 10 \<Longrightarrow> show_nat n = show_nat (n div 10) @ [digit_char (n mod 10)]"
  by (subst show_nat.simps) simp

lemmas numeral_eval = show_nat_small show_nat_large digit_char_def read_nat_def
  digit_val_def is_digit_def show_int_def

lemmas url_eval = numeral_eval parse_plain_def make_url_def split_authority_def valid_host_def
  valid_domain_def special_schemes_def default_port_def domain_char_def hex_digit_def
  is_decimal_def numeric_label_def ipv4_part_def canonical_ipv4_def plain_label_def
  path_char_def plain_segment_def valid_path_def valid_port_part_def parse_port_def Let_def

lemma valid_host_brackets: "valid_host h \<Longrightarrow> h \<noteq> ''::1''"
  by (auto simp: valid_host_def valid_domain_def domain_char_def)

lemma parse_loopback_ws:
  "parse_plain ''ws://127.0.0.1:9222/devtools/browser/x'' =
     Some \<lparr>scheme = ''ws'', host = ''127.0.0.1'', port_number = Some 9222,
           pathname = ''/devtools/browser/x''\<rparr>"
  by (simp add: url_eval)

lemma parse_origin:
  "parse_plain ''http://10.0.0.5:9999'' =
     Some \<lparr>scheme = ''http'', host = ''10.0.0.5'', port_number = Some 9999,
           pathname = ''/''\<rparr>"
  by (simp add: url_eval)

lemma parse_ipv6_ws:
  "parse_plain ''ws://[::1]:9999/devtools/browser/x'' =
     Some \<lparr>scheme = ''ws'', host = ''[::1]'', port_number = Some 9999,
           pathname = ''/devtools/browser/x''\<rparr>"
  by (simp add: url_eval)

lemma parse_unspecified_ws:
  "parse_plain ''ws://0.0.0.0:9999/devtools/browser/x'' =
     Some \<lparr>scheme = ''ws'', host = ''0.0.0.0'', port_number = Some 9999,
           pathname = ''/devtools/browser/x''\<rparr>"
  by (simp add: url_eval)

lemma parse_garbage: "parse_plain ''not a url'' = None"
  by (simp add: url_eval)

lemma parse_other_ws:
  "parse_plain ''ws://10.0.0.7:9222/devtools/browser/x'' =
     Some \<lparr>scheme = ''ws'', host = ''10.0.0.7'', port_number = Some 9222,
           pathname = ''/devtools/browser/x''\<rparr>"
  by (simp add: url_eval)

lemma parse_direct_ws:
  "parse_plain ''ws://10.0.0.7:9999/devtools/browser/x'' =
     Some \<lparr>scheme = ''ws'', host = ''10.0.0.7'', port_number = Some 9999,
           pathname = ''/devtools/browser/x''\<rparr>"
  by (simp add: url_eval)

lemma parse_plain_canonical:
  assumes "parse_plain s = Some u"
  shows "canonical_port plain_URL u"
proof (cases "port_number u")
  case None
  then show ?thesis by (simp add: canonical_port_def plain_URL_def plain_port_def)
next
  case (Some n)
  from assms have "scheme u \<in> set special_schemes" by (rule parse_plain_scheme)
  moreover from assms Some have "n \<noteq> default_port (scheme u)"
    using parse_plain_port_default by fastforce
  ultimately have "Some n \<noteq> default_port_of (scheme u @ '':'')"
    by (auto simp: special_schemes_def default_port_def default_port_of_def)
  with Some show ?thesis
    by (simp add: canonical_port_def plain_URL_def plain_port_def plain_protocol_def
        read_show_nat)
qed

lemma plain_URL_simps:
  "new_URL plain_URL = parse_plain" "protocol plain_URL = plain_protocol"
  "hostname plain_URL = plain_hostname" "port plain_URL = plain_port"
  "set_hostname plain_URL = plain_set_hostname" "set_port plain_URL = plain_set_port"
  "toString plain_URL = plain_toString"
  by (simp_all add: plain_URL_def)

lemma rewriteWsEndpoint_both_parse:
  assumes "new_URL U originalWsUrl = Some wsUrl" and "new_URL U viaBrowserURL = Some via"
  shows "rewriteWsEndpoint U originalWsUrl viaBrowserURL =
     Inr (if hostname U wsUrl \<noteq> ''127.0.0.1'' \<and> hostname U wsUrl \<noteq> ''localhost'' \<and>
             hostname U wsUrl \<noteq> ''::1'' \<and> port U wsUrl = port U via
          then originalWsUrl
          else toString U (set_port U (set_hostname U wsUrl (hostname U via)) (port U via)))"
  by (simp add: rewriteWsEndpoint_def rewriteWsEndpoint_try_def Let_def assms)

lemma rewriteWsEndpoint_plain:
  assumes "parse_plain originalWsUrl = Some wsUrl" and "parse_plain viaBrowserURL = Some via"
  shows "rewriteWsEndpoint plain_URL originalWsUrl viaBrowserURL =
     Inr (if plain_hostname wsUrl \<noteq> ''127.0.0.1'' \<and> plain_hostname wsUrl \<noteq> ''localhost'' \<and>
             plain_port wsUrl = plain_port via
          then originalWsUrl
          else plain_toString (wsUrl\<lparr>host := plain_hostname via,
                 port_number := (if port_number via = Some (default_port (scheme wsUrl))
                                 then None else port_number via)\<rparr>))"
proof -
  from assms(1) have a: "plain_hostname wsUrl \<noteq> ''::1''"
    unfolding plain_hostname_def by (intro valid_host_brackets parse_plain_host)
  have b: "plain_set_port (plain_set_hostname wsUrl (plain_hostname via)) (plain_port via) =
           wsUrl\<lparr>host := plain_hostname via,
                 port_number := (if port_number via = Some (default_port (scheme wsUrl))
                                 then None else port_number via)\<rparr>"
    by (simp add: set_hostname_parsed [OF assms(2)] set_port_parsed [OF assms(2)])
  from assms have "new_URL plain_URL originalWsUrl = Some wsUrl"
    and "new_URL plain_URL viaBrowserURL = Some via"
    by (simp_all add: plain_URL_simps)
  from rewriteWsEndpoint_both_parse [OF this] a b show ?thesis
    by (simp add: plain_URL_simps)
qed

lemma port_eq_effective:
  assumes "canonical_port U w" and "canonical_port U v"
    and "default_port_of (protocol U w) = default_port_of (protocol U v)"
  shows "port U w = port U v \<longleftrightarrow> effective_port U w = effective_port U v"
proof (cases "port U w = []")
  case True
  with assms show ?thesis
    by (auto simp: canonical_port_def effective_port_def)
next
  case w: False
  show ?thesis
  proof (cases "port U v = []")
    case True
    with w assms show ?thesis
      by (auto simp: canonical_port_def effective_port_def)
  next
    case False
    with w assms have "port U w = show_nat (read_nat (port U w))"
      and "port U v = show_nat (read_nat (port U v))"
      by (simp_all add: canonical_port_def)
    then have "read_nat (port U w) = read_nat (port U v) \<Longrightarrow> port U w = port U v"
      by simp
    with w False show ?thesis
      by (auto simp: effective_port_def)
  qed
qed

section \<open>Facts about computations\<close>

lemma preserves_return [preserves_intros]: "preserves g (io_return x)"
  by (simp add: preserves_def io_return_def)

lemma preserves_throw [preserves_intros]: "preserves g (io_throw e)"
  by (simp add: preserves_def io_throw_def)

lemma preserves_pure [preserves_intros]: "preserves g (\<lambda>s. (r, s))"
  by (simp add: preserves_def)

lemma preserves_bind [preserves_intros]:
  assumes "preserves g m" and "\<And>x. preserves g (f x)"
  shows "preserves g (io_bind m f)"
proof -
  have "g (snd (io_bind m f s)) = g s" for s
  proof (cases "m s")
    case (Pair r s')
    with assms(1) have a: "g s' = g s" by (metis preserves_def snd_conv)
    show ?thesis
    proof (cases r)
      case (Inl e)
      with Pair a show ?thesis by (simp add: io_bind_def)
    next
      case (Inr x)
      with Pair a assms(2) [of x] show ?thesis by (simp add: io_bind_def preserves_def)
    qed
  qed
  then show ?thesis by (simp add: preserves_def)
qed

lemma preserves_catch [preserves_intros]:
  assumes "preserves g m" and "\<And>e. preserves g (h e)"
  shows "preserves g (io_catch m h)"
proof -
  have "g (snd (io_catch m h s)) = g s" for s
  proof (cases "m s")
    case (Pair r s')
    with assms(1) have a: "g s' = g s" by (metis preserves_def snd_conv)
    show ?thesis
    proof (cases r)
      case (Inl e)
      with Pair a assms(2) [of e] show ?thesis by (simp add: io_catch_def preserves_def)
    next
      case (Inr x)
      with Pair a show ?thesis by (simp add: io_catch_def)
    qed
  qed
  then show ?thesis by (simp add: preserves_def)
qed

lemma preserves_external [preserves_intros]:
  "(\<And>s. g (s\<lparr>events := events s @ [ev]\<rparr>) = g s) \<Longrightarrow> preserves g (external ev a)"
  by (simp add: preserves_def external_def)

lemma preserves_modify [preserves_intros]:
  "(\<And>s. g (f s) = g s) \<Longrightarrow> preserves g (modify f)"
  by (simp add: preserves_def modify_def)

lemma preserves_if [preserves_intros]:
  "(c \<Longrightarrow> preserves g a) \<Longrightarrow> (\<not> c \<Longrightarrow> preserves g b) \<Longrightarrow> preserves g (if c then a else b)"
  by simp

lemma preserves_case_option [preserves_intros]:
  "preserves g a \<Longrightarrow> (\<And>x. preserves g (f x)) \<Longrightarrow> preserves g (case_option a f v)"
  by (cases v) simp_all

lemma preserves_case_list [preserves_intros]:
  "preserves g a \<Longrightarrow> (\<And>x xs. preserves g (f x xs)) \<Longrightarrow> preserves g (case_list a f v)"
  by (cases v) simp_all

lemma preserves_case_flow [preserves_intros]:
  "preserves g a \<Longrightarrow> (\<And>x. preserves g (f x)) \<Longrightarrow> preserves g (case_flow a f v)"
  by (cases v) simp_all

lemma preserves_case_sum [preserves_intros]:
  "(\<And>x. preserves g (a x)) \<Longrightarrow> (\<And>x. preserves g (f x)) \<Longrightarrow> preserves g (case_sum a f v)"
  by (cases v) simp_all

lemma preserves_case_prod [preserves_intros]:
  "(\<And>x y. preserves g (f x y)) \<Longrightarrow> preserves g (case_prod f v)"
  by (cases v) simp_all

lemma preserves_logger [preserves_intros]:
  "unobtrusive g \<Longrightarrow> preserves g (logger l)"
  unfolding logger_def by (rule preserves_modify) (simp add: unobtrusive_def)

lemma unobtrusive_event: "unobtrusive g \<Longrightarrow> \<not> is_launch ev \<Longrightarrow> g (s\<lparr>events := events s @ [ev]\<rparr>) = g s"
  by (simp add: unobtrusive_def)

lemma unobtrusive_live: "unobtrusive g \<Longrightarrow> g (s\<lparr>live := l\<rparr>) = g s"
  by (simp add: unobtrusive_def)

lemma unobtrusive_browser: "unobtrusive g \<Longrightarrow> g (s\<lparr>browser_var := b\<rparr>) = g s"
  by (simp add: unobtrusive_def)

lemmas unobtrusive_simps = unobtrusive_event unobtrusive_live unobtrusive_browser

lemma preserves_fetchJsonWithTimeout [preserves_intros]:
  "unobtrusive g \<Longrightarrow> preserves g (fetchJsonWithTimeout env url t)"
  unfolding fetchJsonWithTimeout_def
  by (intro preserves_intros) (simp_all add: unobtrusive_simps)

lemma preserves_resolveWsFromBrowserURL [preserves_intros]:
  "unobtrusive g \<Longrightarrow> preserves g (resolveWsFromBrowserURL env url t)"
  unfolding resolveWsFromBrowserURL_def
  by (intro preserves_intros) (simp_all add: unobtrusive_simps)

lemma preserves_connectWithTimeout [preserves_intros]:
  "unobtrusive g \<Longrightarrow> preserves g (connectWithTimeout env co t)"
  unfolding connectWithTimeout_def
  by (intro preserves_intros) (simp_all add: unobtrusive_simps)

lemma preserves_sendWithTimeout [preserves_intros]:
  "unobtrusive g \<Longrightarrow> preserves g (sendWithTimeout env c m t)"
  unfolding sendWithTimeout_def
  by (intro preserves_intros) (simp_all add: unobtrusive_simps)

lemma preserves_execSync [preserves_intros]:
  "unobtrusive g \<Longrightarrow> preserves g (execSync env cmd)"
  unfolding execSync_def
  by (intro preserves_intros) (simp_all add: unobtrusive_simps)

lemma preserves_discover_port [preserves_intros]:
  "unobtrusive g \<Longrightarrow> preserves g (discover_port env c ip p)"
  unfolding discover_port_def
  by (intro preserves_intros) (simp_all add: unobtrusive_simps)

lemma preserves_discover_ports [preserves_intros]:
  "unobtrusive g \<Longrightarrow> preserves g (discover_ports env c ip ps)"
  by (induction ps) (auto intro!: preserves_intros)

lemma preserves_discover_container [preserves_intros]:
  "unobtrusive g \<Longrightarrow> preserves g (discover_container env c)"
  unfolding discover_container_def
  by (intro preserves_intros) (simp_all add: unobtrusive_simps)

lemma preserves_discover_containers [preserves_intros]:
  "unobtrusive g \<Longrightarrow> preserves g (discover_containers env cs)"
  by (induction cs) (auto intro!: preserves_intros)

lemma preserves_connection_details [preserves_intros]:
  "unobtrusive g \<Longrightarrow> preserves g (connection_details env opts)"
  unfolding connection_details_def discoverWebtopBrowser_def
  by (intro preserves_intros) (simp_all add: unobtrusive_simps)

lemma preserves_warm_up [preserves_intros]:
  "unobtrusive g \<Longrightarrow> preserves g (warm_up env b)"
  unfolding warm_up_def
  by (intro preserves_intros) (simp_all add: unobtrusive_simps)

lemma preserves_connect_and_warm_up [preserves_intros]:
  "unobtrusive g \<Longrightarrow> preserves g (connect_and_warm_up env t co)"
  unfolding connect_and_warm_up_def
  by (intro preserves_intros) (simp_all add: unobtrusive_simps)

lemma preserves_ensureBrowserConnected [preserves_intros]:
  assumes "unobtrusive g"
  shows "preserves g (ensureBrowserConnected env opts)"
proof -
  have "preserves g (io_bind (connection_details env opts)
          (\<lambda>(connectionTarget, connectOptions).
             connect_and_warm_up env connectionTarget connectOptions))"
    using assms by (intro preserves_intros)
  then show ?thesis
    by (auto simp: preserves_def ensureBrowserConnected_def split: option.splits)
qed

lemma preserves_withTimeout [preserves_intros]:
  "preserves g m \<Longrightarrow> preserves g (withTimeout env m ms l)"
  by (auto simp: preserves_def withTimeout_def split: prod.splits) (metis snd_conv)+

lemma catch_all_returns: "\<exists>s'. io_catch m (\<lambda>_. io_return ()) s = (Inr (), s')"
  by (cases "m s") (auto simp: io_catch_def io_return_def split: sum.splits)

lemma preservesD: "preserves g m \<Longrightarrow> m s = (r, s') \<Longrightarrow> g s' = g s"
  by (metis preserves_def snd_conv)

lemma unobtrusive_launches: "unobtrusive (\<lambda>s. launches (events s))"
  by (simp add: unobtrusive_def launches_def)

section \<open>The endpoint resolver: rewriting the advertised address\<close>

lemma resolveWsFromBrowserURL_advertised:
  "ws \<noteq> [] \<Longrightarrow>
   resolveWsFromBrowserURL (advertising ws) origin t s =
     (rewriteWsEndpoint plain_URL ws origin,
      s\<lparr>events := events s @ [Fetch (origin @ ''/json/version'')]\<rparr>)"
  by (simp add: resolveWsFromBrowserURL_def fetchJsonWithTimeout_def io_bind_def io_return_def
      external_def advertising_def failing_env_def js_or_def truthy_def)

lemma rewriteWsEndpoint_spec_example:
  "rewriteWsEndpoint plain_URL ''ws://127.0.0.1:9222/devtools/browser/x''
     ''http://10.0.0.5:9999'' = Inr ''ws://10.0.0.5:9999/devtools/browser/x''"
  by (simp add: rewriteWsEndpoint_plain [OF parse_loopback_ws parse_origin] plain_hostname_def
      plain_toString_def default_port_def numeral_eval)

text \<open>
  The example of the spec: \<open>http://10.0.0.5:9999/json/version\<close> advertising
  \<open>ws://127.0.0.1:9222/devtools/browser/x\<close> resolves to
  \<open>ws://10.0.0.5:9999/devtools/browser/x\<close>.
\<close>

lemma resolveWsFromBrowserURL_spec_example:
  "resolveWsFromBrowserURL (advertising ''ws://127.0.0.1:9222/devtools/browser/x'')
     ''http://10.0.0.5:9999'' 3000 fresh_state =
     (Inr ''ws://10.0.0.5:9999/devtools/browser/x'',
      fresh_state\<lparr>events := [Fetch ''http://10.0.0.5:9999/json/version'']\<rparr>)"
  by (simp add: resolveWsFromBrowserURL_advertised rewriteWsEndpoint_spec_example
      fresh_state_def)

text \<open>
  C1. A discovery response that advertises the IPv6 loopback is not rewritten when its
  port equals the origin's: \<open>hostname\<close> of such a URL is \<open>[::1]\<close>, with the brackets,
  and the comparison with \<open>::1\<close> in \<open>rewriteWsEndpoint\<close> never holds. The endpoint
  resolved for the origin \<open>http://10.0.0.5:9999\<close> still names the loopback.
\<close>

theorem ipv6_loopback_not_rewritten:
  "rewriteWsEndpoint plain_URL ''ws://[::1]:9999/devtools/browser/x'' ''http://10.0.0.5:9999'' =
     Inr ''ws://[::1]:9999/devtools/browser/x'' \<and>
   fst (resolveWsFromBrowserURL (advertising ''ws://[::1]:9999/devtools/browser/x'')
          ''http://10.0.0.5:9999'' 3000 fresh_state) =
     Inr ''ws://[::1]:9999/devtools/browser/x''"
  by (simp add: resolveWsFromBrowserURL_advertised
      rewriteWsEndpoint_plain [OF parse_ipv6_ws parse_origin] plain_hostname_def plain_port_def)

text \<open>
  C2, as the claim states it, fails: an advertised unspecified host (\<open>0.0.0.0\<close>) on the
  origin's port is returned as it is, with a host that is not the origin's.
\<close>

theorem rewriteWsEndpoint_unspecified_kept:
  "map_option (hostname plain_URL) (new_URL plain_URL ''ws://0.0.0.0:9999/devtools/browser/x'') =
     Some ''0.0.0.0'' \<and>
   rewriteWsEndpoint plain_URL ''ws://0.0.0.0:9999/devtools/browser/x'' ''http://10.0.0.5:9999'' =
     Inr ''ws://0.0.0.0:9999/devtools/browser/x'' \<and>
   map_option (hostname plain_URL) (new_URL plain_URL ''http://10.0.0.5:9999'') = Some ''10.0.0.5''"
  by (simp add: rewriteWsEndpoint_plain [OF parse_unspecified_ws parse_origin]
      parse_unspecified_ws parse_origin plain_URL_simps plain_hostname_def plain_port_def)

text \<open>
  C2, amended. Whatever the URL class: for an advertised string and an origin that both
  parse, to URL objects with canonical \<open>port\<close> properties whose schemes have the same
  default port (as ws has with http, and wss with https), the advertised host not being
  the IPv6 loopback: \<open>rewriteWsEndpoint\<close> substitutes exactly when the advertised
  hostname is \<open>127.0.0.1\<close> or \<open>localhost\<close> or the advertised port differs from the
  origin's. It then returns the advertised URL object, serialized after the origin's
  hostname and the origin's port have been assigned to it; otherwise it returns the
  advertised string itself, also when its host is the unspecified address.
\<close>

theorem rewriteWsEndpoint_rule:
  assumes "new_URL U originalWsUrl = Some wsUrl" and "new_URL U viaBrowserURL = Some via"
    and "hostname U wsUrl \<noteq> ''[::1]''" and "hostname U wsUrl \<noteq> ''::1''"
    and "canonical_port U wsUrl" and "canonical_port U via"
    and "default_port_of (protocol U wsUrl) = default_port_of (protocol U via)"
  shows "rewriteWsEndpoint U originalWsUrl viaBrowserURL =
     Inr (if hostname U wsUrl = ''127.0.0.1'' \<or> hostname U wsUrl = ''localhost'' \<or>
             effective_port U wsUrl \<noteq> effective_port U via
          then toString U (set_port U (set_hostname U wsUrl (hostname U via)) (port U via))
          else originalWsUrl)"
  using rewriteWsEndpoint_both_parse [OF assms(1,2)] assms(4) port_eq_effective [OF assms(5-7)]
  by auto

theorem rewriteWsEndpoint_rule_witness:
  "rewriteWsEndpoint plain_URL ''ws://127.0.0.1:9222/devtools/browser/x'' ''http://10.0.0.5:9999'' =
     Inr ''ws://10.0.0.5:9999/devtools/browser/x'' \<and>
   rewriteWsEndpoint plain_URL ''ws://10.0.0.7:9222/devtools/browser/x'' ''http://10.0.0.5:9999'' =
     Inr ''ws://10.0.0.5:9999/devtools/browser/x'' \<and>
   rewriteWsEndpoint plain_URL ''ws://10.0.0.7:9999/devtools/browser/x'' ''http://10.0.0.5:9999'' =
     Inr ''ws://10.0.0.7:9999/devtools/browser/x''"
proof -
  let ?U = "plain_URL"
  let ?v = "\<lparr>scheme = ''http'', host = ''10.0.0.5'', port_number = Some 9999, pathname = ''/''\<rparr>"
  have v: "new_URL ?U ''http://10.0.0.5:9999'' = Some ?v"
    by (simp add: plain_URL_simps parse_origin)
  have cv: "canonical_port ?U ?v"
    using parse_origin by (rule parse_plain_canonical)
  have sv: "plain_set_port (plain_set_hostname w ''10.0.0.5'') ''9999'' =
      w\<lparr>host := ''10.0.0.5'',
        port_number := (if 9999 = default_port (scheme w) then None else Some 9999)\<rparr>"
    for w
    using set_hostname_parsed [OF parse_origin, of w]
      set_port_parsed [OF parse_origin, of "w\<lparr>host := ''10.0.0.5''\<rparr>"]
    by (simp add: plain_hostname_def plain_port_def numeral_eval)
  have r: "rewriteWsEndpoint ?U s ''http://10.0.0.5:9999'' =
      Inr (if h = ''127.0.0.1'' \<or> h = ''localhost'' \<or> n \<noteq> 9999
           then ''ws://10.0.0.5:9999'' @ t else s)"
    if p: "parse_plain s = Some \<lparr>scheme = ''ws'', host = h, port_number = Some n, pathname = t\<rparr>"
      and h: "h \<noteq> ''[::1]''"
    for s h n t
  proof -
    let ?w = "\<lparr>scheme = ''ws'', host = h, port_number = Some n, pathname = t\<rparr>"
    from p have w: "new_URL ?U s = Some ?w" by (simp add: plain_URL_simps)
    from p have cw: "canonical_port ?U ?w" by (rule parse_plain_canonical)
    from h have h1: "hostname ?U ?w \<noteq> ''[::1]''"
      by (simp add: plain_URL_simps plain_hostname_def)
    from p have h2: "hostname ?U ?w \<noteq> ''::1''"
      using valid_host_brackets [OF parse_plain_host [OF p]]
      by (simp add: plain_URL_simps plain_hostname_def)
    have d: "default_port_of (protocol ?U ?w) = default_port_of (protocol ?U ?v)"
      by (simp add: plain_URL_simps plain_protocol_def default_port_of_def)
    have e: "effective_port ?U ?w = Some n" "effective_port ?U ?v = Some 9999"
      by (simp_all add: effective_port_def plain_URL_simps plain_port_def show_nat_nonempty
          read_show_nat)
    from rewriteWsEndpoint_rule [OF w v h1 h2 cw cv d] show ?thesis
      by (simp add: e plain_URL_simps sv plain_hostname_def plain_port_def plain_toString_def
          default_port_def numeral_eval)
  qed
  from r [OF parse_loopback_ws] r [OF parse_other_ws] r [OF parse_direct_ws]
  show ?thesis by simp
qed

text \<open>
  C10. Whatever the URL class and the two strings, \<open>rewriteWsEndpoint\<close> returns a
  string and throws nothing. When either string fails to parse, the \<open>try\<close> block
  throws, the \<open>catch\<close> takes the error, and the advertised string is returned as it
  was given.
\<close>

theorem rewriteWsEndpoint_unparsable:
  "(\<exists>r. rewriteWsEndpoint U originalWsUrl viaBrowserURL = Inr r) \<and>
   (new_URL U originalWsUrl = None \<or> new_URL U viaBrowserURL = None \<longrightarrow>
      (\<exists>e. rewriteWsEndpoint_try U originalWsUrl viaBrowserURL = Inl e) \<and>
      rewriteWsEndpoint U originalWsUrl viaBrowserURL = Inr originalWsUrl)"
  by (auto simp: rewriteWsEndpoint_def rewriteWsEndpoint_try_def Let_def
      split: option.splits sum.splits)

theorem rewriteWsEndpoint_unparsable_witness:
  "new_URL plain_URL ''not a url'' = None \<and>
   rewriteWsEndpoint_try plain_URL ''not a url'' ''http://10.0.0.5:9999'' =
     Inl (new_TypeError ''Invalid URL'') \<and>
   rewriteWsEndpoint plain_URL ''not a url'' ''http://10.0.0.5:9999'' = Inr ''not a url'' \<and>
   rewriteWsEndpoint plain_URL ''ws://127.0.0.1:9222/devtools/browser/x'' ''not a url'' =
     Inr ''ws://127.0.0.1:9222/devtools/browser/x''"
  using rewriteWsEndpoint_unparsable [of plain_URL "''not a url''" "''http://10.0.0.5:9999''"]
    rewriteWsEndpoint_unparsable [of plain_URL "''ws://127.0.0.1:9222/devtools/browser/x''"
      "''not a url''"]
  by (simp add: plain_URL_simps parse_garbage rewriteWsEndpoint_try_def)

section \<open>The candidate ports\<close>

lemma show_int_inj: "show_int i = show_int j \<Longrightarrow> i = j"
proof -
  have neg: "\<And>n. hd (show_nat n) \<noteq> CHR ''-''"
  proof -
    fix n
    have "list_all is_digit (show_nat n)" by (rule show_nat_digits)
    then have "is_digit (hd (show_nat n))"
      using show_nat_nonempty [of n] by (cases "show_nat n") simp_all
    then show "hd (show_nat n) \<noteq> CHR ''-''" by (auto simp: is_digit_def)
  qed
  assume eq: "show_int i = show_int j"
  show ?thesis
  proof (cases "i < 0")
    case True
    show ?thesis
    proof (cases "j < 0")
      case True
      with \<open>i < 0\<close> eq have "nat (- i) = nat (- j)"
        by (auto simp: show_int_def dest: show_nat_inj)
      with True \<open>i < 0\<close> show ?thesis by simp
    next
      case False
      from \<open>i < 0\<close> have "show_int i = CHR ''-'' # show_nat (nat (- i))"
        by (simp add: show_int_def)
      moreover from False have "show_int j = show_nat (nat j)"
        by (simp add: show_int_def)
      ultimately have "hd (show_nat (nat j)) = CHR ''-''"
        using eq by (metis list.sel(1))
      with neg show ?thesis by blast
    qed
  next
    case False
    show ?thesis
    proof (cases "j < 0")
      case True
      from True have "show_int j = CHR ''-'' # show_nat (nat (- j))"
        by (simp add: show_int_def)
      moreover from False have "show_int i = show_nat (nat i)"
        by (simp add: show_int_def)
      ultimately have "hd (show_nat (nat i)) = CHR ''-''"
        using eq by (metis list.sel(1))
      with neg show ?thesis by blast
    next
      case j: False
      with False eq have "nat i = nat j"
        by (auto simp: show_int_def dest: show_nat_inj)
      with False j show ?thesis by simp
    qed
  qed
qed

lemma show_int_9999: "show_int 9999 = ''9999''"
  by (simp add: numeral_eval)

lemma show_int_9222: "show_int 9222 = ''9222''"
  by (simp add: numeral_eval)

text \<open>
  C8. The list that \<open>pushCandidatesForHostPort\<close> builds from the empty list is the
  list of the spec: the requested port, then 9999, then 9222, each pair where it first
  stands; no URL stands in it twice; and a request for port 9222 of 10.0.0.5 gives
  \<open>10.0.0.5:9222\<close>, then \<open>10.0.0.5:9999\<close>.
\<close>

theorem pushCandidatesForHostPort_spec:
  "pushCandidatesForHostPort [] h p = spec_candidates h p \<and>
   distinct (pushCandidatesForHostPort [] h p) \<and>
   hd (pushCandidatesForHostPort [] h p) = ''http://'' @ h @ '':'' @ show_int p \<and>
   pushCandidatesForHostPort [] ''10.0.0.5'' 9222 =
     [''http://10.0.0.5:9222'', ''http://10.0.0.5:9999'']"
proof -
  have a: "pushCandidatesForHostPort [] h p = spec_candidates h p"
    by (simp add: pushCandidatesForHostPort_def spec_candidates_def candidate_url_def
        show_int_9999 show_int_9222)
  have b: "distinct (pushCandidatesForHostPort [] h p)"
    using show_int_inj [of p 9999] show_int_inj [of p 9222]
    by (auto simp: pushCandidatesForHostPort_def show_int_9999 [symmetric]
        show_int_9222 [symmetric] dest: show_int_inj)
  have c: "hd (pushCandidatesForHostPort [] h p) = ''http://'' @ h @ '':'' @ show_int p"
    by (simp add: pushCandidatesForHostPort_def)
  have d: "pushCandidatesForHostPort [] ''10.0.0.5'' 9222 =
      [''http://10.0.0.5:9222'', ''http://10.0.0.5:9999'']"
    by (simp add: pushCandidatesForHostPort_def show_int_9222)
  from a b c d show ?thesis by blast
qed

theorem pushCandidatesForHostPort_spec_witness:
  "pushCandidatesForHostPort [] ''10.0.0.5'' 9999 =
     [''http://10.0.0.5:9999'', ''http://10.0.0.5:9222''] \<and>
   spec_candidates ''10.0.0.5'' 9222 = [''http://10.0.0.5:9222'', ''http://10.0.0.5:9999'']"
  using pushCandidatesForHostPort_spec [of "''10.0.0.5''" 9999]
    pushCandidatesForHostPort_spec [of "''10.0.0.5''" 9222]
  by (simp add: spec_candidates_def candidate_url_def show_int_9999 show_int_9222)

section \<open>The connection manager\<close>

text \<open>
  C9. When the active browser is connected, \<open>ensureBrowserConnected\<close> and
  \<open>ensureBrowserLaunched\<close> both return it and leave the state as it was: nothing is
  discovered, connected or launched (the list of calls to the outside is part of the
  state).
\<close>

theorem ensure_returns_live_connection:
  assumes "browser_var s = Some b" and "b \<in> live s"
  shows "ensureBrowserConnected env opts s = (Inr b, s) \<and>
         ensureBrowserLaunched env lopts s = (Inr b, s)"
  using assms
  by (simp add: ensureBrowserConnected_def ensureBrowserLaunched_def connected_browser_def)

theorem ensure_returns_live_connection_witness:
  "ensureBrowserConnected failing_env ws_options connected_state = (Inr 1, connected_state) \<and>
   ensureBrowserLaunched failing_env some_launch_options connected_state =
     (Inr 1, connected_state)"
  using ensure_returns_live_connection [of connected_state 1 failing_env ws_options
      some_launch_options]
  by (simp add: connected_state_def)

text \<open>
  C7. When no browser is connected yet, the connection details are found and
  \<open>puppeteer.connect\<close> hands over a browser, \<open>ensureBrowserConnected\<close> returns that
  browser and leaves it the active connection, whatever the warm-up calls (the list of
  pages, the CDP session, \<open>Runtime.enable\<close>, \<open>Page.enable\<close>) answer: the
  environment's answers to them are arbitrary here.
\<close>

theorem warm_up_failures_swallowed:
  assumes "connected_browser s = None"
    and "connection_details env opts s = (Inr (target, co), s1)"
    and "connect_result env (events s1) co = Resolved b"
  shows "fst (ensureBrowserConnected env opts s) = Inr b \<and>
         active b (snd (ensureBrowserConnected env opts s))"
proof -
  define s2 where "s2 = s1\<lparr>events := events s1 @ [PuppeteerConnect co], live := insert b (live s1),
     browser_var := Some b\<rparr>"
  obtain s3 where w: "io_catch (warm_up env b) (\<lambda>_. io_return ()) s2 = (Inr (), s3)"
    using catch_all_returns by blast
  have "preserves (\<lambda>s. (browser_var s, live s)) (io_catch (warm_up env b) (\<lambda>_. io_return ()))"
    unfolding warm_up_def sendWithTimeout_def
    by (intro preserves_intros) simp_all
  with w have "browser_var s3 = browser_var s2 \<and> live s3 = live s2"
    by (metis preserves_def snd_conv prod.inject)
  then have act: "active b s3" by (simp add: active_def s2_def)
  have c: "connectWithTimeout env co 8000 s1 =
      (Inr b, s1\<lparr>events := events s1 @ [PuppeteerConnect co], live := insert b (live s1)\<rparr>)"
    using assms(3)
    by (simp add: connectWithTimeout_def io_bind_def external_def race_def modify_def io_return_def)
  have "connect_and_warm_up env target co s1 = (Inr b, s3)"
    using c w
    by (simp add: connect_and_warm_up_def io_catch_def io_bind_def modify_def io_return_def s2_def)
  with assms(1,2) have "ensureBrowserConnected env opts s = (Inr b, s3)"
    by (simp add: ensureBrowserConnected_def io_bind_def)
  with act show ?thesis by simp
qed

theorem warm_up_failures_swallowed_witness:
  "fst (warm_up forwarder_env 2 fresh_state) = Inl (new_Error ''Protocol error'') \<and>
   fst (ensureBrowserConnected forwarder_env ws_options fresh_state) = Inr 2 \<and>
   active 2 (snd (ensureBrowserConnected forwarder_env ws_options fresh_state))"
proof -
  have a: "connected_browser fresh_state = None"
    by (simp add: connected_browser_def fresh_state_def)
  have b: "connection_details forwarder_env ws_options fresh_state =
      (Inr (Some ''ws://10.0.0.5:9999/devtools/browser/x'',
            \<lparr>browserWSEndpoint = Some ''ws://10.0.0.5:9999/devtools/browser/x'',
             headers = None, protocolTimeout = 15000\<rparr>), fresh_state)"
    by (simp add: connection_details_def ws_options_def truthy_def js_or_def io_bind_def
        io_return_def)
  have c: "connect_result forwarder_env (events fresh_state)
      \<lparr>browserWSEndpoint = Some ''ws://10.0.0.5:9999/devtools/browser/x'',
       headers = None, protocolTimeout = 15000\<rparr> = Resolved 2"
    by (simp add: forwarder_env_def failing_env_def)
  have d: "fst (warm_up forwarder_env 2 fresh_state) = Inl (new_Error ''Protocol error'')"
    by (simp add: warm_up_def io_bind_def external_def forwarder_env_def failing_env_def)
  from warm_up_failures_swallowed [OF a b c] d show ?thesis by simp
qed

text \<open>
  C3. With a browser URL or a WebSocket endpoint given on the command line, a failed
  connect attempt (a rejection, or the 12 s timer) is what \<open>getContext\<close> throws, in the
  state the attempt left, and no local Chrome has been started.
\<close>

theorem explicit_hint_propagates:
  assumes "truthy (browserUrl args) \<or> truthy (arg_wsEndpoint args)"
    and "withTimeout env
           (ensureBrowserConnected env
              \<lparr>browserURL = browserUrl args, wsEndpoint = arg_wsEndpoint args,
               wsHeaders = arg_wsHeaders args, devtools = devtools_flag args\<rparr>)
           12000 ''connect to Chrome'' s = (Inl e, s')"
  shows "getContext env args s = (Inl e, s') \<and> launches (events s') = launches (events s)"
proof -
  have "preserves (\<lambda>s. launches (events s))
          (withTimeout env
             (ensureBrowserConnected env
                \<lparr>browserURL = browserUrl args, wsEndpoint = arg_wsEndpoint args,
                 wsHeaders = arg_wsHeaders args, devtools = devtools_flag args\<rparr>)
             12000 ''connect to Chrome'')"
    by (intro preserves_intros unobtrusive_launches)
  then have "launches (events s') = launches (events s)"
    using assms(2) by (rule preservesD)
  moreover have "getContext env args s = (Inl e, s')"
    using assms by (auto simp: getContext_def io_bind_def io_catch_def io_throw_def)
  ultimately show ?thesis by simp
qed

lemma hint_attempt:
  "withTimeout failing_env
     (ensureBrowserConnected failing_env
        \<lparr>browserURL = browserUrl hint_args, wsEndpoint = arg_wsEndpoint hint_args,
         wsHeaders = arg_wsHeaders hint_args, devtools = devtools_flag hint_args\<rparr>)
     12000 ''connect to Chrome'' fresh_state =
   (Inl (new_TypeError ''fetch failed''),
    fresh_state\<lparr>events := [Fetch ''http://10.0.0.5:9999/json/version'']\<rparr>)"
  by (simp add: withTimeout_def ensureBrowserConnected_def connected_browser_def
      connection_details_def resolveWsFromBrowserURL_def fetchJsonWithTimeout_def
      io_bind_def io_return_def external_def truthy_def js_or_def template_def
      hint_args_def failing_env_def fresh_state_def)

theorem explicit_hint_propagates_witness:
  "getContext failing_env hint_args fresh_state =
     (Inl (new_TypeError ''fetch failed''),
      fresh_state\<lparr>events := [Fetch ''http://10.0.0.5:9999/json/version'']\<rparr>) \<and>
   launches [Fetch ''http://10.0.0.5:9999/json/version''] = 0"
proof -
  have "truthy (browserUrl hint_args) \<or> truthy (arg_wsEndpoint hint_args)"
    by (simp add: hint_args_def truthy_def)
  from explicit_hint_propagates [OF this hint_attempt]
  show ?thesis by (simp add: fresh_state_def launches_def)
qed

section \<open>The candidate prober\<close>

lemma try_candidate_fails:
  assumes "candidate_attempt env ec lg c s = (Inl e, s1)"
    and "lg (''Failed candidate '' @ c @ '': '' @ reason e) s1 = (Inr u, s2)"
  shows "try_candidate env ec lg c s = (Inr (Inl (c @ '': '' @ reason e)), s2)"
  using assms by (simp add: try_candidate_def io_catch_def io_bind_def io_return_def)

lemma try_candidate_succeeds:
  assumes "candidate_attempt env ec lg c s = (Inr result, s1)"
  shows "try_candidate env ec lg c s = (Inr (Inr result), s1)"
  using assms by (simp add: try_candidate_def io_catch_def io_bind_def io_return_def)

lemma failures_Cons:
  assumes "failures env ec lg (c # cs) s = Some (errs, s')"
  obtains e s1 u s2 es where "candidate_attempt env ec lg c s = (Inl e, s1)"
    and "lg (''Failed candidate '' @ c @ '': '' @ reason e) s1 = (Inr u, s2)"
    and "failures env ec lg cs s2 = Some (es, s')" and "errs = e # es"
  using assms by (auto split: prod.splits sum.splits option.splits)

lemma candidates_loop_all_fail:
  "failures env ec lg cands s = Some (errs, s') \<Longrightarrow>
   length errs = length cands \<and>
   candidates_loop env ec lg errors cands s =
     (Inl (aggregate_error (errors @ map2 (\<lambda>c e. c @ '': '' @ reason e) cands errs)), s')"
proof (induction cands arbitrary: s errors errs)
  case Nil
  then show ?case by (simp add: io_throw_def)
next
  case (Cons c cs)
  from Cons.prems obtain e s1 u s2 es
    where a: "candidate_attempt env ec lg c s = (Inl e, s1)"
      and l: "lg (''Failed candidate '' @ c @ '': '' @ reason e) s1 = (Inr u, s2)"
      and f: "failures env ec lg cs s2 = Some (es, s')" and errs: "errs = e # es"
    by (rule failures_Cons)
  from Cons.IH [OF f, of "errors @ [c @ '': '' @ reason e]"] try_candidate_fails [OF a l] errs
  show ?case by (simp add: io_bind_def)
qed

lemma candidates_loop_first_success:
  "failures env ec lg before s = Some (errs, s1) \<Longrightarrow>
   candidate_attempt env ec lg c s1 = (Inr result, s2) \<Longrightarrow>
   candidates_loop env ec lg errors (before @ c # later) s = (Inr result, s2)"
proof (induction before arbitrary: s errors errs)
  case Nil
  then show ?case by (simp add: try_candidate_succeeds io_bind_def io_return_def)
next
  case (Cons b bs)
  from Cons.prems(1) obtain e s' u s'' es
    where a: "candidate_attempt env ec lg b s = (Inl e, s')"
      and l: "lg (''Failed candidate '' @ b @ '': '' @ reason e) s' = (Inr u, s'')"
      and f: "failures env ec lg bs s'' = Some (es, s1)"
    by (rule failures_Cons)
  from Cons.IH [OF f Cons.prems(2), of "errors @ [b @ '': '' @ reason e]"]
    try_candidate_fails [OF a l]
  show ?case by (simp add: io_bind_def)
qed

lemma join_lines: "xs \<noteq> [] \<Longrightarrow> c # join [c] xs = concat (map (\<lambda>x. c # x) xs)"
  by (induction "[c]" xs rule: join.induct) simp_all

lemma aggregate_error_message:
  assumes "length errs = length cands" and "cands \<noteq> []"
  shows "aggregate_error (map2 (\<lambda>c e. c @ '': '' @ reason e) cands errs) =
     Error ''Error''
       (''Could not connect to any candidate endpoint:'' @
        concat (map2 (\<lambda>c e. [CHR 0x0A] @ ''- '' @ c @ '': '' @
                        (if message e \<noteq> [] then message e else String_of_error e))
                  cands errs))
       None"
proof -
  from assms have "map (\<lambda>l. ''- '' @ l) (map2 (\<lambda>c e. c @ '': '' @ reason e) cands errs) \<noteq> []"
    by (cases cands; cases errs) simp_all
  from join_lines [OF this, of "CHR 0x0A"] show ?thesis
    by (simp add: aggregate_error_def new_Error_def reason_def comp_def case_prod_unfold)
qed

text \<open>
  C4. The candidates are tried one after the other, each in the state the one before
  left. When all of them fail, \<open>tryCandidatesAndConnect\<close> throws an \<open>Error\<close> whose
  message is the heading followed by one line per candidate, in the order of the
  candidates: the line of a candidate names it and gives the reason of the error that its
  own attempt threw (the message of that error, or the error as a string when it has no
  message). When the candidates before \<open>c\<close> fail and \<open>c\<close> succeeds, the result of
  \<open>c\<close> is returned in the state its attempt left, whatever candidates stand after it:
  none of them is tried, and nothing is thrown.
\<close>

theorem tryCandidatesAndConnect_sequential:
  "(candidates \<noteq> [] \<and> failures env ec lg candidates s = Some (errs, s') \<longrightarrow>
      length errs = length candidates \<and>
      tryCandidatesAndConnect env candidates ec lg s =
        (Inl (Error ''Error''
                (''Could not connect to any candidate endpoint:'' @
                 concat (map2 (\<lambda>c e. [CHR 0x0A] @ ''- '' @ c @ '': '' @
                                 (if message e \<noteq> [] then message e else String_of_error e))
                           candidates errs))
                None), s')) \<and>
   (failures env ec lg before s = Some (errs, s1) \<and>
    candidate_attempt env ec lg c s1 = (Inr result, s2) \<longrightarrow>
      tryCandidatesAndConnect env (before @ c # later) ec lg s = (Inr result, s2))"
proof (intro conjI impI)
  assume a: "candidates \<noteq> [] \<and> failures env ec lg candidates s = Some (errs, s')"
  with candidates_loop_all_fail [of env ec lg candidates s errs s' "[]"]
  have l: "length errs = length candidates"
    and r: "candidates_loop env ec lg [] candidates s =
      (Inl (aggregate_error (map2 (\<lambda>c e. c @ '': '' @ reason e) candidates errs)), s')"
    by simp_all
  from l show "length errs = length candidates" .
  from a have "candidates \<noteq> []" by simp
  from this r aggregate_error_message [OF l this]
  show "tryCandidatesAndConnect env candidates ec lg s =
        (Inl (Error ''Error''
                (''Could not connect to any candidate endpoint:'' @
                 concat (map2 (\<lambda>c e. [CHR 0x0A] @ ''- '' @ c @ '': '' @
                                 (if message e \<noteq> [] then message e else String_of_error e))
                           candidates errs))
                None), s')"
    by (simp add: tryCandidatesAndConnect_def)
next
  assume "failures env ec lg before s = Some (errs, s1) \<and>
    candidate_attempt env ec lg c s1 = (Inr result, s2)"
  with candidates_loop_first_success [of env ec lg before s errs s1 c result s2 "[]" later]
  show "tryCandidatesAndConnect env (before @ c # later) ec lg s = (Inr result, s2)"
    by (simp add: tryCandidatesAndConnect_def)
qed

lemma fetchJsonVersion_plain:
  assumes "URL env = plain_URL"
    and "parse_plain c =
           Some \<lparr>scheme = ''http'', host = h, port_number = Some n, pathname = t\<rparr>"
  shows "fetchJsonVersion env c 2000 s =
     (case fetch_result env (events s) (''http://'' @ h @ '':'' @ show_nat n @ ''/json/version'')
             2000 of
        Inl e \<Rightarrow> Inl e
      | Inr res \<Rightarrow> if \<not> ok res then Inl (new_Error (''HTTP '' @ show_nat (status res)))
                   else json_body res,
      s\<lparr>events := events s @
           [Fetch (''http://'' @ h @ '':'' @ show_nat n @ ''/json/version'')]\<rparr>)"
  using assms
  by (simp add: fetchJsonVersion_def plain_URL_simps plain_protocol_def plain_hostname_def
      plain_port_def show_nat_nonempty io_bind_def external_def io_throw_def Let_def
      split: sum.splits)

lemma URL_probing_env: "URL probing_env = plain_URL"
  by (simp add: probing_env_def forwarder_env_def failing_env_def)

lemma parse_9222:
  "parse_plain ''http://10.0.0.5:9222'' =
     Some \<lparr>scheme = ''http'', host = ''10.0.0.5'', port_number = Some 9222,
           pathname = ''/''\<rparr>"
  by (simp add: url_eval)

lemma parse_second:
  "parse_plain ''http://10.0.0.6:9222'' =
     Some \<lparr>scheme = ''http'', host = ''10.0.0.6'', port_number = Some 9222,
           pathname = ''/''\<rparr>"
  by (simp add: url_eval)

lemma parse_third:
  "parse_plain ''http://10.0.0.7:9222'' =
     Some \<lparr>scheme = ''http'', host = ''10.0.0.7'', port_number = Some 9222,
           pathname = ''/''\<rparr>"
  by (simp add: url_eval)

lemma fetch_unreachable:
  "fetchJsonVersion probing_env ''http://10.0.0.5:9222'' 2000 s =
     (Inl (new_TypeError ''fetch failed''),
      s\<lparr>events := events s @ [Fetch ''http://10.0.0.5:9222/json/version'']\<rparr>)"
  unfolding fetchJsonVersion_plain [OF URL_probing_env parse_9222]
  by (simp add: probing_env_def forwarder_env_def failing_env_def numeral_eval)

lemma fetch_unavailable:
  "fetchJsonVersion probing_env ''http://10.0.0.6:9222'' 2000 s =
     (Inl (new_Error ''HTTP 503''),
      s\<lparr>events := events s @ [Fetch ''http://10.0.0.6:9222/json/version'']\<rparr>)"
  unfolding fetchJsonVersion_plain [OF URL_probing_env parse_second]
  by (simp add: probing_env_def forwarder_env_def failing_env_def numeral_eval)

lemma fetch_no_channel:
  "fetchJsonVersion probing_env ''http://10.0.0.7:9222'' 2000 s =
     (Inr \<lparr>webSocketDebuggerUrl = None, webSocketDebuggerUrlLegacy = None\<rparr>,
      s\<lparr>events := events s @ [Fetch ''http://10.0.0.7:9222/json/version'']\<rparr>)"
  unfolding fetchJsonVersion_plain [OF URL_probing_env parse_third]
  by (simp add: probing_env_def forwarder_env_def failing_env_def numeral_eval)

lemma fetch_forwarder:
  "fetchJsonVersion probing_env ''http://10.0.0.5:9999'' 2000 s =
     (Inr \<lparr>webSocketDebuggerUrl = Some ''ws://10.0.0.5:9999/devtools/browser/x'',
           webSocketDebuggerUrlLegacy = None\<rparr>,
      s\<lparr>events := events s @ [Fetch ''http://10.0.0.5:9999/json/version'']\<rparr>)"
  unfolding fetchJsonVersion_plain [OF URL_probing_env parse_origin]
  by (simp add: probing_env_def forwarder_env_def failing_env_def numeral_eval)

lemma attempt_unreachable:
  "candidate_attempt probing_env ec logger ''http://10.0.0.5:9222'' s =
     (Inl (new_TypeError ''fetch failed''),
      s\<lparr>events := events s @ [Fetch ''http://10.0.0.5:9222/json/version'']\<rparr>)"
  by (simp add: candidate_attempt_def fetch_unreachable io_bind_def)

lemma attempt_unavailable:
  "candidate_attempt probing_env ec logger ''http://10.0.0.6:9222'' s =
     (Inl (new_Error ''HTTP 503''),
      s\<lparr>events := events s @ [Fetch ''http://10.0.0.6:9222/json/version'']\<rparr>)"
  by (simp add: candidate_attempt_def fetch_unavailable io_bind_def)

lemma attempt_no_channel:
  "candidate_attempt probing_env ec logger ''http://10.0.0.7:9222'' s =
     (Inl (new_Error ''No webSocketDebuggerUrl in /json/version''),
      s\<lparr>events := events s @ [Fetch ''http://10.0.0.7:9222/json/version'']\<rparr>)"
  by (simp add: candidate_attempt_def fetch_no_channel io_bind_def io_throw_def truthy_def)

lemma attempt_forwarder:
  "fst (candidate_attempt probing_env (ensureBrowserConnected probing_env) logger
          ''http://10.0.0.5:9999''
          (fresh_state\<lparr>events := evs\<rparr>)) =
     Inr \<lparr>newBrowser = 2, resolvedHttpUrl = ''http://10.0.0.5:9999'',
          resolved_wsEndpoint = ''ws://10.0.0.5:9999/devtools/browser/x''\<rparr> \<and>
   events (snd (candidate_attempt probing_env (ensureBrowserConnected probing_env) logger
          ''http://10.0.0.5:9999''
          (fresh_state\<lparr>events := evs\<rparr>))) =
     evs @ [Fetch ''http://10.0.0.5:9999/json/version'',
            Log ''Resolved http://10.0.0.5:9999 -> ws://10.0.0.5:9999/devtools/browser/x'',
            PuppeteerConnect \<lparr>browserWSEndpoint = Some ''ws://10.0.0.5:9999/devtools/browser/x'',
                              headers = None, protocolTimeout = 15000\<rparr>,
            BrowserPages 2]"
  unfolding candidate_attempt_def io_bind_def fetch_forwarder
  by (simp add: ensureBrowserConnected_def connected_browser_def connection_details_def
      connect_and_warm_up_def connectWithTimeout_def warm_up_def io_bind_def io_catch_def
      io_return_def io_throw_def external_def modify_def logger_def race_def truthy_def
      js_or_def template_def probing_env_def forwarder_env_def failing_env_def fresh_state_def)

theorem tryCandidatesAndConnect_sequential_witness:
  "tryCandidatesAndConnect probing_env
     [''http://10.0.0.5:9222'', ''http://10.0.0.6:9222'', ''http://10.0.0.7:9222'']
     (ensureBrowserConnected probing_env) logger fresh_state =
     (Inl (new_Error (''Could not connect to any candidate endpoint:'' @ [CHR 0x0A] @
             ''- http://10.0.0.5:9222: fetch failed'' @ [CHR 0x0A] @
             ''- http://10.0.0.6:9222: HTTP 503'' @ [CHR 0x0A] @
             ''- http://10.0.0.7:9222: No webSocketDebuggerUrl in /json/version'')),
      fresh_state\<lparr>events := [Fetch ''http://10.0.0.5:9222/json/version'',
            Log ''Failed candidate http://10.0.0.5:9222: fetch failed'',
            Fetch ''http://10.0.0.6:9222/json/version'',
            Log ''Failed candidate http://10.0.0.6:9222: HTTP 503'',
            Fetch ''http://10.0.0.7:9222/json/version'',
            Log ''Failed candidate http://10.0.0.7:9222: No webSocketDebuggerUrl in /json/version'']\<rparr>) \<and>
   fst (tryCandidatesAndConnect probing_env
          [''http://10.0.0.5:9222'', ''http://10.0.0.6:9222'', ''http://10.0.0.5:9999'',
           ''http://10.0.0.7:9222'']
          (ensureBrowserConnected probing_env) logger fresh_state) =
     Inr \<lparr>newBrowser = 2, resolvedHttpUrl = ''http://10.0.0.5:9999'',
          resolved_wsEndpoint = ''ws://10.0.0.5:9999/devtools/browser/x''\<rparr> \<and>
   events (snd (tryCandidatesAndConnect probing_env
          [''http://10.0.0.5:9222'', ''http://10.0.0.6:9222'', ''http://10.0.0.5:9999'',
           ''http://10.0.0.7:9222'']
          (ensureBrowserConnected probing_env) logger fresh_state)) =
     [Fetch ''http://10.0.0.5:9222/json/version'',
      Log ''Failed candidate http://10.0.0.5:9222: fetch failed'',
      Fetch ''http://10.0.0.6:9222/json/version'',
      Log ''Failed candidate http://10.0.0.6:9222: HTTP 503'',
      Fetch ''http://10.0.0.5:9999/json/version'',
      Log ''Resolved http://10.0.0.5:9999 -> ws://10.0.0.5:9999/devtools/browser/x'',
      PuppeteerConnect \<lparr>browserWSEndpoint = Some ''ws://10.0.0.5:9999/devtools/browser/x'',
                        headers = None, protocolTimeout = 15000\<rparr>,
      BrowserPages 2]"
proof -
  let ?ec = "ensureBrowserConnected probing_env"
  let ?a = "''http://10.0.0.5:9222''"
  let ?b = "''http://10.0.0.6:9222''"
  let ?c = "''http://10.0.0.7:9222''"
  let ?d = "''http://10.0.0.5:9999''"
  let ?two = "[Fetch ''http://10.0.0.5:9222/json/version'',
            Log ''Failed candidate http://10.0.0.5:9222: fetch failed'',
            Fetch ''http://10.0.0.6:9222/json/version'',
            Log ''Failed candidate http://10.0.0.6:9222: HTTP 503'']"
  have f3: "failures probing_env ?ec logger [?a, ?b, ?c] fresh_state =
      Some ([new_TypeError ''fetch failed'', new_Error ''HTTP 503'',
             new_Error ''No webSocketDebuggerUrl in /json/version''],
        fresh_state\<lparr>events := ?two @ [Fetch ''http://10.0.0.7:9222/json/version'',
            Log ''Failed candidate http://10.0.0.7:9222: No webSocketDebuggerUrl in /json/version'']\<rparr>)"
    by (simp add: attempt_unreachable attempt_unavailable attempt_no_channel logger_def
        modify_def reason_def new_Error_def new_TypeError_def fresh_state_def)
  have f2: "failures probing_env ?ec logger [?a, ?b] fresh_state =
      Some ([new_TypeError ''fetch failed'', new_Error ''HTTP 503''],
        fresh_state\<lparr>events := ?two\<rparr>)"
    by (simp add: attempt_unreachable attempt_unavailable logger_def modify_def reason_def
        new_Error_def new_TypeError_def fresh_state_def)
  let ?run = "candidate_attempt probing_env ?ec logger ?d (fresh_state\<lparr>events := ?two\<rparr>)"
  have t: "?run = (Inr \<lparr>newBrowser = 2, resolvedHttpUrl = ''http://10.0.0.5:9999'',
                        resolved_wsEndpoint = ''ws://10.0.0.5:9999/devtools/browser/x''\<rparr>,
                   snd ?run)"
    using attempt_forwarder [of ?two] by (simp add: prod_eq_iff)
  have ne: "[?a, ?b, ?c] \<noteq> []" by simp
  from tryCandidatesAndConnect_sequential [THEN conjunct1, rule_format, OF conjI, OF ne f3]
    tryCandidatesAndConnect_sequential [THEN conjunct2, rule_format, OF conjI, OF f2 t,
      of "[?c]"]
    attempt_forwarder [of ?two]
  show ?thesis
    by (simp add: new_Error_def new_TypeError_def String_of_error_def)
qed

section \<open>The instance switch\<close>

lemma ensuresD: "ensures m Q \<Longrightarrow> m s = (Inr x, s') \<Longrightarrow> Q x s'"
  by (simp add: ensures_def)

lemma io_bind_InrD:
  "io_bind m f s = (Inr y, s') \<Longrightarrow> \<exists>x s1. m s = (Inr x, s1) \<and> f x s1 = (Inr y, s')"
  by (auto simp: io_bind_def split: prod.splits sum.splits)

lemma unobtrusive_objects: "unobtrusive (\<lambda>s. (heap s, context_var s, next_ref s))"
  by (simp add: unobtrusive_def)

lemma preserves_disconnect_current [preserves_intros]:
  assumes "unobtrusive g"
  shows "preserves g (disconnect_current env ctx)"
proof -
  have "preserves g (io_bind (logger ''Disconnecting from current browser'') (\<lambda>_.
          io_bind (external (Disconnect b) (\<lambda>h. disconnect_result env h b)) (\<lambda>_.
            modify (\<lambda>s. s\<lparr>live := live s - {b}\<rparr>))))" for b
    using assms by (intro preserves_intros) (simp_all add: unobtrusive_simps)
  then show ?thesis
    by (auto simp: preserves_def disconnect_current_def split: option.splits val.splits)
qed

lemma preserves_resolveHostToIp [preserves_intros]:
  "unobtrusive g \<Longrightarrow> preserves g (resolveHostToIp env h)"
  unfolding resolveHostToIp_def
  by (intro preserves_intros) (simp_all add: unobtrusive_simps)

lemma preserves_fetchJsonVersion [preserves_intros]:
  "unobtrusive g \<Longrightarrow> preserves g (fetchJsonVersion env u t)"
  unfolding fetchJsonVersion_def Let_def
  by (intro preserves_intros) (simp_all add: unobtrusive_simps)

lemma preserves_try_candidate [preserves_intros]:
  "(\<And>opts. preserves g (ec opts)) \<Longrightarrow> (\<And>l. preserves g (lg l)) \<Longrightarrow> unobtrusive g \<Longrightarrow>
   preserves g (try_candidate env ec lg c)"
  unfolding try_candidate_def candidate_attempt_def
  by (intro preserves_intros) (simp_all add: unobtrusive_simps)

lemma preserves_candidates_loop [preserves_intros]:
  "(\<And>opts. preserves g (ec opts)) \<Longrightarrow> (\<And>l. preserves g (lg l)) \<Longrightarrow> unobtrusive g \<Longrightarrow>
   preserves g (candidates_loop env ec lg errors cands)"
  by (induction cands arbitrary: errors) (auto intro!: preserves_intros)

lemma preserves_build_candidates [preserves_intros]:
  "unobtrusive g \<Longrightarrow> preserves g (build_candidates env ps)"
  unfolding build_candidates_def Let_def
  by (intro preserves_intros) (simp_all add: unobtrusive_simps)

lemma preserves_connect_new [preserves_intros]:
  "unobtrusive g \<Longrightarrow> preserves g (connect_new env ps)"
  unfolding connect_new_def tryCandidatesAndConnect_def
  by (intro preserves_intros) (simp_all add: unobtrusive_simps)

lemma connectWithTimeout_live:
  "connectWithTimeout env co t s = (Inr b, s') \<Longrightarrow>
   b \<in> live s' \<and> browser_var s' = browser_var s"
  by (auto simp: connectWithTimeout_def io_bind_def external_def modify_def io_return_def
      split: sum.splits)

lemma preserves_warm_up_catch:
  "preserves (\<lambda>s. (browser_var s, live s)) (io_catch (warm_up env b) (\<lambda>_. io_return ()))"
  unfolding warm_up_def sendWithTimeout_def
  by (intro preserves_intros) simp_all

lemma connect_and_warm_up_active:
  assumes "connect_and_warm_up env t co s = (Inr b, s')"
  shows "active b s'"
proof -
  let ?body = "io_bind (connectWithTimeout env co 8000) (\<lambda>b.
          io_bind (modify (\<lambda>s. s\<lparr>browser_var := Some b\<rparr>)) (\<lambda>_.
            io_bind (io_catch (warm_up env b) (\<lambda>_. io_return ())) (\<lambda>_.
              io_return b)))"
  from assms have "?body s = (Inr b, s')"
    by (auto simp: connect_and_warm_up_def io_catch_def io_throw_def
        split: prod.splits sum.splits)
  then obtain b0 s1 where c: "connectWithTimeout env co 8000 s = (Inr b0, s1)"
    and r: "io_bind (modify (\<lambda>s. s\<lparr>browser_var := Some b0\<rparr>)) (\<lambda>_.
            io_bind (io_catch (warm_up env b0) (\<lambda>_. io_return ())) (\<lambda>_.
              io_return b0)) s1 = (Inr b, s')"
    by (blast dest: io_bind_InrD)
  from r have "io_bind (io_catch (warm_up env b0) (\<lambda>_. io_return ())) (\<lambda>_. io_return b0)
      (s1\<lparr>browser_var := Some b0\<rparr>) = (Inr b, s')"
    by (simp add: io_bind_def modify_def)
  then obtain u where w: "io_catch (warm_up env b0) (\<lambda>_. io_return ())
      (s1\<lparr>browser_var := Some b0\<rparr>) = (Inr u, s')" and "b = b0"
    by (auto simp: io_return_def dest!: io_bind_InrD)
  from preservesD [OF preserves_warm_up_catch w]
  have "browser_var s' = Some b0 \<and> live s' = live s1" by simp
  with connectWithTimeout_live [OF c] \<open>b = b0\<close> show ?thesis
    by (simp add: active_def)
qed

lemma ensureBrowserConnected_active: "ensures (ensureBrowserConnected env opts) active"
proof -
  have "active b s'" if "ensureBrowserConnected env opts s = (Inr b, s')" for s b s'
  proof (cases "connected_browser s")
    case None
    with that have "io_bind (connection_details env opts)
        (\<lambda>(connectionTarget, connectOptions).
           connect_and_warm_up env connectionTarget connectOptions) s = (Inr b, s')"
      by (simp add: ensureBrowserConnected_def)
    then obtain t co s1 where "connect_and_warm_up env t co s1 = (Inr b, s')"
      by (auto dest!: io_bind_InrD)
    then show ?thesis by (rule connect_and_warm_up_active)
  next
    case (Some b')
    with that have "b = b'" and "s' = s"
      by (simp_all add: ensureBrowserConnected_def)
    with Some show ?thesis
      by (auto simp: active_def connected_browser_def split: option.splits if_splits)
  qed
  then show ?thesis by (simp add: ensures_def)
qed

lemma try_candidate_active:
  assumes "\<And>opts. ensures (ec opts) active"
    and "try_candidate env ec lg c s = (Inr (Inr res), s')"
  shows "active (newBrowser res) s'"
proof -
  have e: "ec opts s1 = (Inr b, s2) \<Longrightarrow> active b s2" for opts s1 b s2
    using assms(1) by (rule ensuresD)
  from assms(2) show ?thesis
    by (auto simp: try_candidate_def candidate_attempt_def io_catch_def io_bind_def
        io_return_def io_throw_def split: prod.splits sum.splits if_splits dest: e)
qed

lemma candidates_loop_active:
  assumes "\<And>opts. ensures (ec opts) active"
  shows "candidates_loop env ec lg errors cands s = (Inr res, s') \<Longrightarrow>
         active (newBrowser res) s'"
proof (induction cands arbitrary: errors s)
  case Nil
  then show ?case by (simp add: io_throw_def)
next
  case (Cons c cs)
  from Cons.prems obtain r s1 where t: "try_candidate env ec lg c s = (Inr r, s1)"
    and k: "(case r of Inr result \<Rightarrow> io_return result
                     | Inl line \<Rightarrow> candidates_loop env ec lg (errors @ [line]) cs) s1 =
            (Inr res, s')"
    by (auto dest!: io_bind_InrD)
  show ?case
  proof (cases r)
    case (Inl line)
    with k Cons.IH show ?thesis by simp
  next
    case (Inr result)
    with k have "result = res" and "s1 = s'" by (simp_all add: io_return_def)
    with t Inr have "try_candidate env ec lg c s = (Inr (Inr res), s')" by simp
    with assms show ?thesis by (rule try_candidate_active [where ec = ec])
  qed
qed

lemma connect_new_active:
  assumes "connect_new env ps s = (Inr (b, u, w), s')"
  shows "active b s'"
proof (cases "truthy (p_wsEndpoint ps)")
  case True
  with assms have "io_bind (logger (''Connecting via provided WebSocket endpoint: '' @
                         template (p_wsEndpoint ps))) (\<lambda>_.
          io_bind (ensureBrowserConnected env
                     \<lparr>browserURL = None, wsEndpoint = p_wsEndpoint ps, wsHeaders = None,
                      devtools = False\<rparr>) (\<lambda>b.
            io_return (b, None, p_wsEndpoint ps))) s = (Inr (b, u, w), s')"
    by (simp add: connect_new_def)
  then obtain s1 where "ensureBrowserConnected env
                     \<lparr>browserURL = None, wsEndpoint = p_wsEndpoint ps, wsHeaders = None,
                      devtools = False\<rparr> s1 = (Inr b, s')"
    by (auto simp: io_return_def dest!: io_bind_InrD)
  with ensureBrowserConnected_active show ?thesis by (rule ensuresD)
next
  case False
  with assms have "io_bind (build_candidates env ps) (\<lambda>candidates.
          io_bind (tryCandidatesAndConnect env candidates (ensureBrowserConnected env) logger)
            (\<lambda>result.
               io_return (newBrowser result, Some (resolvedHttpUrl result),
                          Some (resolved_wsEndpoint result)))) s = (Inr (b, u, w), s')"
    by (simp add: connect_new_def)
  then obtain cands s1 res where
    "candidates_loop env (ensureBrowserConnected env) logger [] cands s1 = (Inr res, s')"
    and "b = newBrowser res"
    by (auto simp: io_return_def tryCandidatesAndConnect_def dest!: io_bind_InrD)
  with candidates_loop_active [where ec = "ensureBrowserConnected env" and env = env
      and lg = logger and errors = "[]" and cands = cands and s = s1 and res = res and s' = s']
    ensureBrowserConnected_active
  show ?thesis by blast
qed

lemma finish_switch_result:
  assumes "finish_switch env ps ctx b rh rw s = (Inr (), s')" and "ctx < next_ref s"
  shows "\<exists>props old. heap s ctx = Some old \<and>
           heap s' = (heap s)(next_ref s \<mapsto> props(''browser'' \<mapsto> BrowserRef b),
                              ctx \<mapsto> old ++ props(''browser'' \<mapsto> BrowserRef b)) \<and>
           context_var s' = context_var s \<and> browser_var s' = browser_var s \<and> live s' = live s"
  using assms
  by (auto simp: finish_switch_def McpContext_from_def Object_assign_def io_bind_def
      external_def modify_def split: sum.splits option.splits if_splits)

lemma switch_in_place:
  assumes "switchBrowser_handler env ps ctx s = (Inr (), s')" and "ctx < next_ref s"
  shows "\<exists>b props old. heap s ctx = Some old \<and> active b s' \<and> context_var s' = context_var s \<and>
           heap s' = (heap s)(next_ref s \<mapsto> props(''browser'' \<mapsto> BrowserRef b),
                              ctx \<mapsto> old ++ props(''browser'' \<mapsto> BrowserRef b))"
proof -
  from assms(1) have "io_bind (disconnect_current env ctx) (\<lambda>_.
          io_bind (connect_new env ps) (\<lambda>(b, resolvedHttp, resolvedWs).
            finish_switch env ps ctx b resolvedHttp resolvedWs)) s = (Inr (), s')"
    by (auto simp: switchBrowser_handler_def io_throw_def split: if_splits)
  then obtain s1 s2 b rh rw where d: "disconnect_current env ctx s = (Inr (), s1)"
    and c: "connect_new env ps s1 = (Inr (b, rh, rw), s2)"
    and f: "finish_switch env ps ctx b rh rw s2 = (Inr (), s')"
    by (auto dest!: io_bind_InrD)
  from preservesD [OF preserves_disconnect_current [OF unobtrusive_objects] d]
    preservesD [OF preserves_connect_new [OF unobtrusive_objects] c]
  have same: "heap s2 = heap s" "context_var s2 = context_var s" "next_ref s2 = next_ref s"
    by simp_all
  from connect_new_active [OF c] have a: "active b s2" .
  from finish_switch_result [OF f] assms(2) same obtain props old where
    "heap s ctx = Some old"
    "heap s' = (heap s)(next_ref s \<mapsto> props(''browser'' \<mapsto> BrowserRef b),
                        ctx \<mapsto> old ++ props(''browser'' \<mapsto> BrowserRef b))"
    "context_var s' = context_var s" "browser_var s' = browser_var s2" "live s' = live s2"
    by auto
  with a show ?thesis by (auto simp: active_def)
qed

lemma getContext_same_object:
  assumes "active b s" and "context_var s = Some ctx"
    and "field_of s ctx ''browser'' = Some (BrowserRef b)"
    and "\<not> timer_first env (events s) ''connect to Chrome''"
  shows "getContext env args s = (Inr ctx, s)"
proof -
  from assms(1) have "ensureBrowserConnected env opts s = (Inr b, s)" for opts
    by (simp add: active_def ensureBrowserConnected_def connected_browser_def)
  with assms(2-4) show ?thesis
    by (simp add: getContext_def io_bind_def io_catch_def withTimeout_def context_browser_def
        field_of_def)
qed

lemmas run_defs = switchBrowser_handler_def disconnect_current_def connect_new_def
  finish_switch_def McpContext_from_def Object_assign_def ensureBrowserConnected_def
  connected_browser_def connection_details_def connect_and_warm_up_def connectWithTimeout_def
  warm_up_def io_bind_def io_catch_def io_return_def io_throw_def external_def modify_def
  logger_def race_def truthy_def js_or_def template_def

lemma switch_example:
  "fst (switchBrowser_handler forwarder_env ws_params 0 connected_state) = Inr () \<and>
   context_var (snd (switchBrowser_handler forwarder_env ws_params 0 connected_state)) = Some 0 \<and>
   field_of (snd (switchBrowser_handler forwarder_env ws_params 0 connected_state)) 0
     ''browser'' = Some (BrowserRef 2) \<and>
   field_of (snd (switchBrowser_handler forwarder_env ws_params 0 connected_state)) 0
     ''logger'' = Some (Opaque 7) \<and>
   active 2 (snd (switchBrowser_handler forwarder_env ws_params 0 connected_state))"
  by (simp add: run_defs forwarder_env_def failing_env_def ws_params_def connected_state_def
      field_of_def active_def)

text \<open>
  C6, as the claim states it, fails: with browser 1 connected and a disconnect that
  fails, the handler throws the error of the disconnect. The switch is aborted: the only
  calls made are the log line and the disconnect, and browser 1 is still the active
  browser.
\<close>

theorem disconnect_failure_aborts_example:
  "fst (switchBrowser_handler failing_env ws_params 0 connected_state) =
     Inl (new_Error ''disconnect failed'') \<and>
   events (snd (switchBrowser_handler failing_env ws_params 0 connected_state)) =
     [Log ''Disconnecting from current browser'', Disconnect 1] \<and>
   browser_var (snd (switchBrowser_handler failing_env ws_params 0 connected_state)) = Some 1"
  by (simp add: run_defs failing_env_def ws_params_def connected_state_def)

text \<open>
  C6, amended. When the switch is asked for a target, the context's browser is connected
  and its disconnect fails, the handler throws the error of the disconnect in the state
  the disconnect left: it is awaited before anything else, its failure is fatal to the
  switch, and no connection to the new target is attempted.
\<close>

theorem disconnect_failure_aborts_switch:
  assumes "truthy (p_container ps) \<or> truthy (p_browserUrl ps) \<or> truthy (p_wsEndpoint ps)"
    and "heap s ctx = Some props" and "props ''browser'' = Some (BrowserRef b)"
    and "b \<in> live s"
    and "disconnect_result env (events s @ [Log ''Disconnecting from current browser'']) b = Inl e"
  shows "switchBrowser_handler env ps ctx s =
           (Inl e, s\<lparr>events := events s @
                        [Log ''Disconnecting from current browser'', Disconnect b]\<rparr>)"
proof -
  from assms(2-5) have "disconnect_current env ctx s =
      (Inl e, s\<lparr>events := events s @
                   [Log ''Disconnecting from current browser'', Disconnect b]\<rparr>)"
    by (simp add: disconnect_current_def io_bind_def logger_def modify_def external_def)
  with assms(1) show ?thesis
    by (auto simp: switchBrowser_handler_def io_bind_def)
qed

theorem disconnect_failure_aborts_switch_witness:
  "switchBrowser_handler failing_env ws_params 0 connected_state =
     (Inl (new_Error ''disconnect failed''),
      connected_state\<lparr>events := [Log ''Disconnecting from current browser'', Disconnect 1]\<rparr>)"
  using disconnect_failure_aborts_switch [of ws_params connected_state 0
      "[''browser'' \<mapsto> BrowserRef 1, ''logger'' \<mapsto> Opaque 0]" 1 failing_env
      "new_Error ''disconnect failed''"]
  by (simp add: ws_params_def connected_state_def failing_env_def truthy_def)

text \<open>
  C5, as the claim states it, fails: after a successful switch from browser 1 to browser
  2 the accessor's variable still holds the object 0 that callers were given before, and
  the fields of that very object have been overwritten.
\<close>

theorem switch_overwrites_context_example:
  "fst (switchBrowser_handler forwarder_env ws_params 0 connected_state) = Inr () \<and>
   context_var connected_state = Some 0 \<and>
   context_var (snd (switchBrowser_handler forwarder_env ws_params 0 connected_state)) = Some 0 \<and>
   field_of connected_state 0 ''browser'' = Some (BrowserRef 1) \<and>
   field_of (snd (switchBrowser_handler forwarder_env ws_params 0 connected_state)) 0
     ''browser'' = Some (BrowserRef 2) \<and>
   field_of connected_state 0 ''logger'' = Some (Opaque 0) \<and>
   field_of (snd (switchBrowser_handler forwarder_env ws_params 0 connected_state)) 0
     ''logger'' = Some (Opaque 7)"
  using switch_example by (simp add: connected_state_def field_of_def)

text \<open>
  C5, amended. After a successful switch, for a context object allocated before it: the
  handler has built a new context object from the new connection \<open>b\<close>, which is the
  active connection, and has written every field of it onto the object it was given. The
  accessor's variable is unchanged, the old object holds the new object's fields over its
  own, and nothing else in the store has changed. When that object is the accessor's and
  the connect timer does not fire, \<open>getContext\<close> returns the same object again,
  without rebuilding it.
\<close>

theorem switch_assigns_in_place:
  assumes "switchBrowser_handler env ps ctx s = (Inr (), s')" and "ctx < next_ref s"
  shows "\<exists>b props old.
           heap s ctx = Some old \<and> active b s' \<and> context_var s' = context_var s \<and>
           heap s' = (heap s)(next_ref s \<mapsto> props(''browser'' \<mapsto> BrowserRef b),
                              ctx \<mapsto> old ++ props(''browser'' \<mapsto> BrowserRef b)) \<and>
           (context_var s = Some ctx \<and> \<not> timer_first env (events s') ''connect to Chrome'' \<longrightarrow>
              getContext env args s' = (Inr ctx, s'))"
proof -
  from switch_in_place [OF assms] obtain b props old where
    a: "heap s ctx = Some old" "active b s'" "context_var s' = context_var s"
      "heap s' = (heap s)(next_ref s \<mapsto> props(''browser'' \<mapsto> BrowserRef b),
                          ctx \<mapsto> old ++ props(''browser'' \<mapsto> BrowserRef b))"
    by blast
  then have f: "field_of s' ctx ''browser'' = Some (BrowserRef b)"
    by (simp add: field_of_def)
  have "getContext env args s' = (Inr ctx, s')"
    if "context_var s = Some ctx" and "\<not> timer_first env (events s') ''connect to Chrome''"
    using getContext_same_object [OF a(2) _ f that(2)] a(3) that(1) by simp
  with a show ?thesis by blast
qed

theorem switch_assigns_in_place_witness:
  "active 2 (snd (switchBrowser_handler forwarder_env ws_params 0 connected_state)) \<and>
   getContext forwarder_env hint_args
     (snd (switchBrowser_handler forwarder_env ws_params 0 connected_state)) =
     (Inr 0, snd (switchBrowser_handler forwarder_env ws_params 0 connected_state))"
proof -
  let ?r = "switchBrowser_handler forwarder_env ws_params 0 connected_state"
  have run: "?r = (Inr (), snd ?r)"
    using switch_example by (simp add: prod_eq_iff)
  have lt: "0 < next_ref connected_state" by (simp add: connected_state_def)
  have c: "context_var connected_state = Some 0" by (simp add: connected_state_def)
  have t: "\<not> timer_first forwarder_env (events (snd ?r)) ''connect to Chrome''"
    by (simp add: forwarder_env_def failing_env_def)
  from switch_assigns_in_place [OF run lt, of hint_args] c t
  have "getContext forwarder_env hint_args (snd ?r) = (Inr 0, snd ?r)" by blast
  with switch_example show ?thesis by simp
qed

end
